theory Spec2Isabelle
  imports Main "HOL-Library.AList"
begin

section \<open>JavaScript values\<close>

text \<open>
  The values the wrapper handles: what a caller passes as an argument, what the transport
  delivers as a parsed JSON body, and the objects the wrapper builds itself (request
  descriptors, options). \<open>JNum n\<close> is the number nearest to the integer \<open>n\<close> (every
  integer below \<open>2^53\<close> in magnitude is such a number itself; numbers with a fraction
  are not part of the model); \<open>JNaN\<close> stands for the one falsy number that is not zero.
  \<open>JStringObj\<close> is a String wrapper object (\<^verbatim>\<open>new String(s)\<close>), which
  \<^verbatim>\<open>instanceof String\<close> tells from a primitive string. An object is the list of its own
  properties, in insertion order.
\<close>

datatype jsval =
    JUndefined
  | JNull
  | JBool bool
  | JNum int
  | JNaN
  | JStr string
  | JStringObj string
  | JArr "jsval list"
  | JObj "(string \<times> jsval) list"

text \<open>ToBoolean: the falsy values are undefined, null, false, 0, NaN and the empty string.\<close>

fun truthy :: "jsval \<Rightarrow> bool" where
  "truthy JUndefined = False"
| "truthy JNull = False"
| "truthy (JBool b) = b"
| "truthy (JNum n) = (n \<noteq> 0)"
| "truthy JNaN = False"
| "truthy (JStr s) = (s \<noteq> [])"
| "truthy (JStringObj s) = True"
| "truthy (JArr xs) = True"
| "truthy (JObj ps) = True"

text \<open>
  Property read \<^verbatim>\<open>v.k\<close>, for the property names the wrapper reads (none of them a
  built-in property of strings or arrays): the own property of an object, undefined
  otherwise. Null and undefined have no properties at all and a read on them throws a
  TypeError; every method below that reads a property of a value that may be null or
  undefined tests the value first, as the source does or as the language does for it.
\<close>

fun get :: "jsval \<Rightarrow> string \<Rightarrow> jsval" where
  "get (JObj ps) k = (case map_of ps k of Some v \<Rightarrow> v | None \<Rightarrow> JUndefined)"
| "get v k = JUndefined"

section \<open>Errors\<close>

text \<open>
  Every error the wrapper can reject with. \<open>Error m\<close> is the generic
  \<^verbatim>\<open>new Error(m)\<close>; \<open>TypeError\<close> and \<open>RangeError\<close> are thrown by the language itself
  (a property read on null or undefined, a value that cannot be converted to a string,
  \<^verbatim>\<open>toISOString\<close> of an invalid date; their messages are not modelled).
  \<open>CircuitBrokenError\<close> is the breaker's rejection while its circuit is open,
  \<open>TimeoutError\<close> its rejection of a call that exceeds the per-call time-out,
  \<open>TransportError\<close> a rejection of the transport call itself (network failure),
  \<open>RetryError e\<close> the retry wrapper's own error after the last attempt failed with
  \<open>e\<close>, surfaced when \<^verbatim>\<open>throw_original\<close> is not set, and \<open>LibraryError\<close> whatever a
  library throws when it refuses the options it is constructed with.
\<close>

datatype error =
    TinderNotAuthorizedError
  | TinderOutOfLikesError
  | Error string
  | TypeError
  | RangeError
  | CircuitBrokenError
  | TimeoutError
  | TransportError string
  | RetryError error
  | LibraryError

section \<open>Converting to strings\<close>

text \<open>Decimal digits of a natural number, most significant first.\<close>

fun digits :: "nat \<Rightarrow> string" where
  "digits n =
     (if n < 10 then [''0123456789'' ! n]
      else digits (n div 10) @ [''0123456789'' ! (n mod 10)])"

declare digits.simps [simp del]

text \<open>
  An integer in decimal: what a template literal gives for a status code, which the
  HTTP parser delivers as an integer of three digits.
\<close>

definition show_int :: "int \<Rightarrow> string" where
  "show_int i = (if i < 0 then CHR ''-'' # digits (nat (- i)) else digits (nat i))"

text \<open>
  The number nearest to a natural number: itself below \<open>2^53\<close>, and from there on
  rounded to 53 significant bits, a tie going to the even neighbour. From \<open>2^1024\<close> on
  the result stands for \<^verbatim>\<open>Infinity\<close>.
\<close>

fun bitlen :: "nat \<Rightarrow> nat" where
  "bitlen n = (if n = 0 then 0 else Suc (bitlen (n div 2)))"

declare bitlen.simps [simp del]

definition round_bits :: "nat \<Rightarrow> nat \<Rightarrow> nat" where
  "round_bits sh n =
     (if n mod 2 ^ sh > 2 ^ sh div 2 \<or> (n mod 2 ^ sh = 2 ^ sh div 2 \<and> odd (n div 2 ^ sh))
      then (n div 2 ^ sh + 1) * 2 ^ sh
      else (n div 2 ^ sh) * 2 ^ sh)"

definition nearest_number :: "nat \<Rightarrow> nat" where
  "nearest_number n = (if n < 2 ^ 53 then n else round_bits (bitlen n - 53) n)"

text \<open>
  Number::toString picks the decimal with the fewest significant digits that still
  denotes the number, the one closest to it if there are several, an even last digit on
  a tie. \<open>shortest x d k\<close> looks for it among the decimals with \<open>k\<close>, \<open>k + 1\<close>, ...
  significant digits, \<open>d\<close> being the number of digits of \<open>x\<close>; the result is that
  decimal as a natural number.
\<close>

function shortest :: "nat \<Rightarrow> nat \<Rightarrow> nat \<Rightarrow> nat" where
  "shortest x d k =
     (if d \<le> k then x
      else if nearest_number (x div 10 ^ (d - k) * 10 ^ (d - k)) = x
            \<and> nearest_number (x div 10 ^ (d - k) * 10 ^ (d - k) + 10 ^ (d - k)) = x
      then (if x mod 10 ^ (d - k) * 2 < 10 ^ (d - k) then x div 10 ^ (d - k) * 10 ^ (d - k)
            else if 10 ^ (d - k) < x mod 10 ^ (d - k) * 2
            then x div 10 ^ (d - k) * 10 ^ (d - k) + 10 ^ (d - k)
            else if even (x div 10 ^ (d - k)) then x div 10 ^ (d - k) * 10 ^ (d - k)
            else x div 10 ^ (d - k) * 10 ^ (d - k) + 10 ^ (d - k))
      else if nearest_number (x div 10 ^ (d - k) * 10 ^ (d - k)) = x
      then x div 10 ^ (d - k) * 10 ^ (d - k)
      else if nearest_number (x div 10 ^ (d - k) * 10 ^ (d - k) + 10 ^ (d - k)) = x
      then x div 10 ^ (d - k) * 10 ^ (d - k) + 10 ^ (d - k)
      else shortest x d (Suc k))"
  by pat_completeness auto
termination
  by (relation "measure (\<lambda>(x, d, k). d - k)") auto

declare shortest.simps [simp del]

text \<open>
  The exponential form of a decimal of more than 21 digits: its significant digits, a
  point after the first of them if there are more, and the exponent.
\<close>

definition exponential :: "string \<Rightarrow> string" where
  "exponential ds =
     (case rev (dropWhile (\<lambda>c. c = CHR ''0'') (rev ds)) of
        [] \<Rightarrow> ''0''
      | [c] \<Rightarrow> c # ''e+'' @ digits (length ds - 1)
      | c # cs \<Rightarrow> c # ''.'' @ cs @ ''e+'' @ digits (length ds - 1))"

definition decimal_or_exponential :: "nat \<Rightarrow> string" where
  "decimal_or_exponential c =
     (if length (digits c) \<le> 21 then digits c else exponential (digits c))"

definition magnitude_string :: "nat \<Rightarrow> string" where
  "magnitude_string n =
     (if n < 2 ^ 53 then digits n
      else if 2 ^ 1024 \<le> nearest_number n then ''Infinity''
      else decimal_or_exponential
             (shortest (nearest_number n) (length (digits (nearest_number n))) 1))"

definition number_string :: "int \<Rightarrow> string" where
  "number_string i =
     (if i < 0 then CHR ''-'' # magnitude_string (nat (- i)) else magnitude_string (nat i))"

text \<open>The first error of a list of results, or all the values.\<close>

fun sequence :: "(error + 'a) list \<Rightarrow> error + 'a list" where
  "sequence [] = Inr []"
| "sequence (Inl e # rs) = Inl e"
| "sequence (Inr x # rs) = (case sequence rs of Inl e \<Rightarrow> Inl e | Inr xs \<Rightarrow> Inr (x # xs))"

fun intercalate :: "string \<Rightarrow> string list \<Rightarrow> string" where
  "intercalate sep [] = []"
| "intercalate sep [x] = x"
| "intercalate sep (x # y # ys) = x @ sep @ intercalate sep (y # ys)"

text \<open>
  ToString, as a template literal \<^verbatim>\<open>`${v}`\<close> applies it. An array joins the strings of
  its elements with commas, null and undefined elements giving the empty string. A plain
  object gives \<^verbatim>\<open>[object Object]\<close>, unless it has a property \<^verbatim>\<open>toString\<close> of its own:
  no value of this model is a function, so the conversion finds nothing to call and
  throws a TypeError.
\<close>

fun toStr :: "jsval \<Rightarrow> error + string" where
  "toStr JUndefined = Inr ''undefined''"
| "toStr JNull = Inr ''null''"
| "toStr (JBool b) = Inr (if b then ''true'' else ''false'')"
| "toStr (JNum n) = Inr (number_string n)"
| "toStr JNaN = Inr ''NaN''"
| "toStr (JStr s) = Inr s"
| "toStr (JStringObj s) = Inr s"
| "toStr (JArr xs) =
     map_sum id (intercalate '','')
       (sequence (map (\<lambda>x. if x = JUndefined \<or> x = JNull then Inr [] else toStr x) xs))"
| "toStr (JObj ps) =
     (if ''toString'' \<in> fst ` set ps then Inl TypeError else Inr ''[object Object]'')"

text \<open>
  A template literal: its literal parts and its substitutions, converted from left to
  right; the first conversion that throws ends it.
\<close>

datatype part = Lit string | Sub jsval

fun template :: "part list \<Rightarrow> error + string" where
  "template [] = Inr []"
| "template (Lit s # ps) = map_sum id ((@) s) (template ps)"
| "template (Sub v # ps) =
     (case toStr v of
        Inl e \<Rightarrow> Inl e
      | Inr s \<Rightarrow> map_sum id ((@) s) (template ps))"

section \<open>Responses\<close>

record response =
  statusCode :: int
  statusMessage :: string
  body :: jsval

text \<open>
  \<^verbatim>\<open>handleResponse\<close>: 401 is the authorization error, any other status from 300 a
  generic error with status code and message; below 300 a truthy \<^verbatim>\<open>body.status\<close> other
  than the number 200 is a generic error with that field and \<^verbatim>\<open>body.error\<close>; otherwise
  the body is returned.
\<close>

definition handleResponse :: "response \<Rightarrow> error + jsval" where
  "handleResponse r =
     (if statusCode r \<ge> 300 then
        (if statusCode r = 401 then Inl TinderNotAuthorizedError
         else Inl (Error (show_int (statusCode r) @ '' '' @ statusMessage r)))
      else if truthy (body r) \<and> truthy (get (body r) ''status'')
                \<and> get (body r) ''status'' \<noteq> JNum 200 then
        (case template [Sub (get (body r) ''status''), Lit '' '', Sub (get (body r) ''error'')] of
           Inl e \<Rightarrow> Inl e
         | Inr m \<Rightarrow> Inl (Error m))
      else Inr (body r))"

section \<open>Options\<close>

definition defaultOptions :: jsval where
  "defaultOptions =
     JObj [
       (''request'', JObj [
          (''headers'', JObj [
             (''User-Agent'', JStr ''Tinder Android Version 4.5.5''),
             (''os_version'', JStr ''23''),
             (''platform'', JStr ''android''),
             (''app-version'', JStr ''854''),
             (''Accept-Language'', JStr ''en'')])]),
       (''retry'', JObj [
          (''max_tries'', JNum 2),
          (''interval'', JNum 1000),
          (''timeout'', JNum 16000),
          (''throw_original'', JBool True)]),
       (''breaker'', JObj [
          (''timeout'', JNum 12000),
          (''threshold'', JNum 80),
          (''circuitDuration'', JNum (3 * 60 * 60 * 1000))])]"

text \<open>
  Modelled from the spec: lodash's \<^verbatim>\<open>defaultsDeep\<close> is a dependency, not a file of the
  repository. The options are "merged with defaults" so that "unspecified fields take
  documented defaults": a property of the defaults is assigned where the destination's
  is undefined (absent or set to undefined); where both are plain objects the merge goes
  into them; any other destination value is kept. A destination that is an array or a
  String object is kept as it is (named properties of such values are not part of
  this model).
\<close>

fun mergeValue :: "jsval \<Rightarrow> jsval \<Rightarrow> jsval"
  and mergeProps :: "(string \<times> jsval) list \<Rightarrow> (string \<times> jsval) list \<Rightarrow> (string \<times> jsval) list"
where
  "mergeValue JUndefined d = d"
| "mergeValue (JObj ps) (JObj ds) = JObj (mergeProps ps ds)"
| "mergeValue v d = v"
| "mergeProps ps [] = ps"
| "mergeProps ps ((k, d) # ds) =
     mergeProps (AList.update k (mergeValue (get (JObj ps) k) d) ps) ds"

text \<open>
  The destination of the top-level merge is \<^verbatim>\<open>Object(options)\<close>: the options object
  itself, or an object without own properties for a value that is not a plain object.
\<close>

definition defaultsDeep :: "jsval \<Rightarrow> jsval \<Rightarrow> jsval" where
  "defaultsDeep object source =
     (case object of
        JObj ps \<Rightarrow> mergeValue (JObj ps) source
      | _ \<Rightarrow> mergeValue (JObj []) source)"

section \<open>The client and its environment\<close>

text \<open>
  What is outside the repository and outside the libraries' documented behaviour is the
  environment of a client. The transport answers its \<open>n\<close>-th invocation (counted from 0,
  over both verbs) with a response or with a rejection (a network failure), after some
  milliseconds. \<open>window\<close> is the length in milliseconds of the window over which a
  breaker measures its failure rate. \<open>accepts_request\<close> and \<open>accepts_breaker\<close> say
  whether \<^verbatim>\<open>request.defaults\<close> and \<^verbatim>\<open>new Brakes\<close> (with its two slave circuits) return
  for the merged request and breaker options, or throw.
\<close>

datatype verb = GET | POST

datatype reply = Responds response | Rejects error

record environment =
  transport :: "nat \<Rightarrow> verb \<Rightarrow> jsval \<Rightarrow> reply \<times> nat"
  window :: int
  accepts_request :: "jsval \<Rightarrow> bool"
  accepts_breaker :: "jsval \<Rightarrow> bool"

text \<open>
  A circuit is closed, with the calls it has let through as far as they still count
  (the time each one ended and whether it failed, latest first), or open since some
  time. Once the open-circuit duration is over, an open circuit is in its trial state:
  the next call is a probe.
\<close>

datatype circuit = Closed "(int \<times> bool) list" | Open int

text \<open>
  The state of one client: its merged options and its session credential
  (\<^verbatim>\<open>this._options\<close>, \<^verbatim>\<open>this._authToken\<close>, undefined until \<^verbatim>\<open>authorize\<close> succeeds), the
  circuit of each verb, the clock in milliseconds since the client was constructed, and
  the transport invocations made so far, oldest first, each with its verb and the
  request descriptor handed over (the base request options are added by the transport).
\<close>

record state =
  options :: jsval
  authToken :: jsval
  circuit :: "verb \<Rightarrow> circuit"
  clock :: int
  sent :: "(verb \<times> jsval) list"

definition initial :: "jsval \<Rightarrow> state" where
  "initial merged =
     \<lparr> options = merged,
       authToken = JUndefined,
       circuit = (\<lambda>v. Closed []),
       clock = 0,
       sent = [] \<rparr>"

text \<open>
  The constructor merges the options with the defaults, then hands the merged request
  options to \<^verbatim>\<open>request.defaults\<close> and the merged breaker options to \<^verbatim>\<open>new Brakes\<close>;
  if one of them throws, so does the constructor.
\<close>

definition constructor :: "environment \<Rightarrow> jsval \<Rightarrow> error + state" where
  "constructor env opts =
     (if \<not> accepts_request env
            (get (defaultsDeep (if opts = JUndefined then JObj [] else opts) defaultOptions)
               ''request'')
      then Inl LibraryError
      else if \<not> accepts_breaker env
            (get (defaultsDeep (if opts = JUndefined then JObj [] else opts) defaultOptions)
               ''breaker'')
      then Inl LibraryError
      else Inr (initial (defaultsDeep (if opts = JUndefined then JObj [] else opts)
                           defaultOptions)))"

subsection \<open>The circuit breaker\<close>

text \<open>
  Modelled from the spec: the circuit breaker (Brakes) is a dependency, not a file of
  the repository. Per verb, it "tracks rolling failure rate over the configured window.
  In the closed state, calls pass through and failures increment the rate. When failure
  rate crosses \<^verbatim>\<open>threshold\<close> (as a percentage) within the measurement window, the breaker
  opens: all calls fail immediately without attempting the network, for
  \<^verbatim>\<open>circuitDuration\<close> milliseconds. After that duration elapses the breaker moves to a
  trial (half-open) state, allowing a limited number of probe calls; success closes the
  circuit, failure re-opens it. Each individual call is bounded by a \<^verbatim>\<open>timeout\<close>;
  exceeding it counts as a failure." A response of any status is a success of the call:
  a status from 500 is classified "after the breaker has already recorded the attempt
  outcome". The rate crosses the threshold when the failures among the calls of the
  window are more than \<^verbatim>\<open>threshold\<close> percent of them. A setting that is not a number
  sets no bound: no per-call time-out, a circuit that never opens, an open circuit that
  is on trial at once.
\<close>

definition as_number :: "jsval \<Rightarrow> int option" where
  "as_number v = (case v of JNum n \<Rightarrow> Some n | _ \<Rightarrow> None)"

text \<open>The call as the breaker sees it end: cut off at the per-call time-out.\<close>

fun bounded :: "int option \<Rightarrow> reply \<times> nat \<Rightarrow> reply \<times> int" where
  "bounded None (r, d) = (r, int d)"
| "bounded (Some t) (r, d) = (if t < int d then (Rejects TimeoutError, t) else (r, int d))"

definition failed :: "reply \<Rightarrow> bool" where
  "failed r = (case r of Responds x \<Rightarrow> False | Rejects e \<Rightarrow> True)"

definition recent :: "int \<Rightarrow> int \<Rightarrow> (int \<times> bool) list \<Rightarrow> (int \<times> bool) list" where
  "recent w now calls = filter (\<lambda>c. now - w < fst c) calls"

definition crossed :: "jsval \<Rightarrow> (int \<times> bool) list \<Rightarrow> bool" where
  "crossed threshold calls =
     (case as_number threshold of
        None \<Rightarrow> False
      | Some p \<Rightarrow> p * int (length calls) < 100 * int (length (filter snd calls)))"

text \<open>
  The circuit after a call that was let through and ended at \<open>now\<close>: a probe closes or
  re-opens it; on a closed circuit the call is counted, and the circuit opens if the
  rate has crossed the threshold.
\<close>

definition after_call :: "jsval \<Rightarrow> int \<Rightarrow> circuit \<Rightarrow> int \<Rightarrow> bool \<Rightarrow> circuit" where
  "after_call bopts w c now f =
     (case c of
        Open t \<Rightarrow> (if f then Open now else Closed [])
      | Closed calls \<Rightarrow>
          (if crossed (get bopts ''threshold'') (recent w now ((now, f) # calls))
           then Open now
           else Closed (recent w now ((now, f) # calls))))"

fun complete ::
  "environment \<Rightarrow> verb \<Rightarrow> jsval \<Rightarrow> state \<Rightarrow> reply \<times> int \<Rightarrow> (error + response) \<times> state"
where
  "complete env v params s (r, d) =
     ((case r of Responds x \<Rightarrow> Inr x | Rejects e \<Rightarrow> Inl e),
      s\<lparr>circuit := (circuit s)
            (v := after_call (get (options s) ''breaker'') (window env) (circuit s v)
                    (clock s + d) (failed r)),
        clock := clock s + d,
        sent := sent s @ [(v, params)]\<rparr>)"

definition invoke ::
  "environment \<Rightarrow> verb \<Rightarrow> jsval \<Rightarrow> state \<Rightarrow> (error + response) \<times> state"
where
  "invoke env v params s =
     complete env v params s
       (bounded (as_number (get (get (options s) ''breaker'') ''timeout''))
          (transport env (length (sent s)) v params))"

definition on_trial :: "jsval \<Rightarrow> int \<Rightarrow> int \<Rightarrow> bool" where
  "on_trial bopts t now =
     (case as_number (get bopts ''circuitDuration'') of
        None \<Rightarrow> True
      | Some d \<Rightarrow> t + d \<le> now)"

text \<open>\<^verbatim>\<open>exec\<close> of the circuit of a verb: the gate, then the transport invocation.\<close>

definition exec ::
  "environment \<Rightarrow> verb \<Rightarrow> jsval \<Rightarrow> state \<Rightarrow> (error + response) \<times> state"
where
  "exec env v params s =
     (case circuit s v of
        Closed calls \<Rightarrow> invoke env v params s
      | Open t \<Rightarrow>
          (if on_trial (get (options s) ''breaker'') t (clock s)
           then invoke env v params s
           else (Inl CircuitBrokenError, s)))"

subsection \<open>The dispatchers\<close>

text \<open>
  One attempt, the function handed to \<^verbatim>\<open>retry\<close>: the breaker's call, then a response
  with a status from 500 is thrown as a generic error.
\<close>

definition attempt ::
  "environment \<Rightarrow> verb \<Rightarrow> jsval \<Rightarrow> state \<Rightarrow> (error + response) \<times> state"
where
  "attempt env v params s =
     (case exec env v params s of
        (Inl e, s') \<Rightarrow> (Inl e, s')
      | (Inr r, s') \<Rightarrow>
          (if statusCode r \<ge> 500
           then (Inl (Error (show_int (statusCode r) @ '' '' @ statusMessage r)), s')
           else (Inr r, s')))"

text \<open>
  Modelled from the spec: bluebird-retry is a dependency, not a file of the repository.
  "On a failure it waits \<^verbatim>\<open>interval\<close> milliseconds then retries, up to \<^verbatim>\<open>max_tries\<close> total
  attempts, with an overall wall-clock \<^verbatim>\<open>timeout\<close> ceiling. If \<^verbatim>\<open>throw_original\<close> is set,
  the final surfaced error is the last underlying failure rather than a generic
  retry-exhaustion error." In the detail the spec leaves open the model follows the
  library. The interval is 1000 unless the option is a number. After a failure the
  wrapper gives up when the number of attempts made equals a truthy \<^verbatim>\<open>max_tries\<close>, or
  when a time-out is set and the time of the failure plus the interval reaches the time
  of the call plus the time-out; with neither \<^verbatim>\<open>max_tries\<close> nor a time-out set,
  \<^verbatim>\<open>max_tries\<close> is 5. Otherwise the next attempt starts one interval after the start of
  the failed one, or at once if that is past. From the second failure on the interval is
  first multiplied by a truthy \<^verbatim>\<open>backoff\<close> and cut at a truthy \<^verbatim>\<open>max_interval\<close>. An
  interval that is not a number any more (\<open>None\<close>) neither reaches the ceiling nor makes
  the wrapper wait. Options that are strings or objects are not converted to numbers
  here: such a time-out sets no ceiling, such a \<^verbatim>\<open>backoff\<close> or \<^verbatim>\<open>max_interval\<close> leaves
  no number as interval. An attempt without end is the value \<open>None\<close>.
\<close>

definition retry_interval :: "jsval \<Rightarrow> int option" where
  "retry_interval ropts =
     (case get ropts ''interval'' of JNum i \<Rightarrow> Some i | JNaN \<Rightarrow> None | _ \<Rightarrow> Some 1000)"

definition retry_max_tries :: "jsval \<Rightarrow> jsval" where
  "retry_max_tries ropts =
     (if \<not> truthy (get ropts ''max_tries'') \<and> \<not> truthy (get ropts ''timeout'')
      then JNum 5 else get ropts ''max_tries'')"

definition giveup_time :: "jsval \<Rightarrow> int \<Rightarrow> int option" where
  "giveup_time ropts now =
     (case get ropts ''timeout'' of
        JNum t \<Rightarrow> (if t = 0 then None else Some (now + t))
      | JBool b \<Rightarrow> (if b then Some (now + 1) else None)
      | _ \<Rightarrow> None)"

definition multiplied :: "jsval \<Rightarrow> int option \<Rightarrow> int option" where
  "multiplied b i =
     (if \<not> truthy b then i
      else case b of
        JNum n \<Rightarrow> map_option (\<lambda>x. x * n) i
      | JBool t \<Rightarrow> i
      | _ \<Rightarrow> None)"

definition at_most :: "jsval \<Rightarrow> int option \<Rightarrow> int option" where
  "at_most m i =
     (if \<not> truthy m then i
      else case m of
        JNum n \<Rightarrow> map_option (min n) i
      | JBool t \<Rightarrow> map_option (min 1) i
      | _ \<Rightarrow> None)"

definition backoff :: "jsval \<Rightarrow> int option \<Rightarrow> int option" where
  "backoff ropts i = at_most (get ropts ''max_interval'') (multiplied (get ropts ''backoff'') i)"

definition next_interval :: "jsval \<Rightarrow> nat \<Rightarrow> int option \<Rightarrow> int option" where
  "next_interval ropts tries i = (if 1 < tries then backoff ropts i else i)"

definition gives_up :: "jsval \<Rightarrow> int option \<Rightarrow> nat \<Rightarrow> int option \<Rightarrow> int \<Rightarrow> bool" where
  "gives_up most giveup tries i now =
     ((truthy most \<and> most = JNum (int tries))
      \<or> (case (giveup, i) of (Some g, Some x) \<Rightarrow> g \<le> now + x | _ \<Rightarrow> False))"

definition resume :: "int option \<Rightarrow> int \<Rightarrow> int \<Rightarrow> int" where
  "resume i started now = (case i of None \<Rightarrow> now | Some x \<Rightarrow> max now (started + x))"

partial_function (option) try_once ::
  "(state \<Rightarrow> (error + 'a) \<times> state) \<Rightarrow> jsval \<Rightarrow> int option \<Rightarrow> int option \<Rightarrow> nat \<Rightarrow> state
     \<Rightarrow> ((error + 'a) \<times> state) option"
where
  "try_once f ropts giveup i tries s =
     (case f s of
        (Inr r, s') \<Rightarrow> Some (Inr r, s')
      | (Inl e, s') \<Rightarrow>
          (if gives_up (retry_max_tries ropts) giveup (Suc tries)
                (next_interval ropts (Suc tries) i) (clock s')
           then Some (Inl (if truthy (get ropts ''throw_original'') then e else RetryError e), s')
           else try_once f ropts giveup (next_interval ropts (Suc tries) i) (Suc tries)
                  (s'\<lparr>clock := resume (next_interval ropts (Suc tries) i) (clock s) (clock s')\<rparr>)))"

declare try_once.simps [code]

definition retry ::
  "(state \<Rightarrow> (error + 'a) \<times> state) \<Rightarrow> jsval \<Rightarrow> state \<Rightarrow> ((error + 'a) \<times> state) option"
where
  "retry f ropts s = try_once f ropts (giveup_time ropts (clock s)) (retry_interval ropts) 0 s"

text \<open>
  The two dispatchers \<^verbatim>\<open>_getRequest\<close> and \<^verbatim>\<open>_postRequest\<close>, each with the circuit of its
  verb.
\<close>

definition getRequest ::
  "environment \<Rightarrow> jsval \<Rightarrow> state \<Rightarrow> ((error + response) \<times> state) option"
where
  "getRequest env params s = retry (attempt env GET params) (get (options s) ''retry'') s"

definition postRequest ::
  "environment \<Rightarrow> jsval \<Rightarrow> state \<Rightarrow> ((error + response) \<times> state) option"
where
  "postRequest env params s = retry (attempt env POST params) (get (options s) ''retry'') s"

section \<open>Endpoint methods\<close>

definition BASE_URL :: string where
  "BASE_URL = ''https://api.gotinder.com''"

text \<open>The step \<^verbatim>\<open>.then((response) => handleResponse(response))\<close> of a promise chain.\<close>

definition thenHandle ::
  "((error + response) \<times> state) option \<Rightarrow> ((error + jsval) \<times> state) option"
where
  "thenHandle p =
     (case p of
        None \<Rightarrow> None
      | Some (Inl e, s') \<Rightarrow> Some (Inl e, s')
      | Some (Inr r, s') \<Rightarrow> Some (handleResponse r, s'))"

text \<open>
  The request descriptor (\<^verbatim>\<open>const options = {...}\<close>) of \<^verbatim>\<open>authorize\<close>; those of
  \<^verbatim>\<open>getUpdates\<close> and \<^verbatim>\<open>like\<close> are named below in the same way.
\<close>

definition authorizeOptions :: "jsval \<Rightarrow> jsval \<Rightarrow> jsval" where
  "authorizeOptions facebookAccessToken facebookUserId =
     JObj [(''url'', JStr (BASE_URL @ ''/auth'')),
           (''body'', JObj [(''facebook_token'', facebookAccessToken),
                            (''facebook_id'', facebookUserId),
                            (''locale'', JStr ''en'')]),
           (''json'', JBool True)]"

definition authorize ::
  "environment \<Rightarrow> jsval \<Rightarrow> jsval \<Rightarrow> state \<Rightarrow> ((error + jsval) \<times> state) option"
where
  "authorize env facebookAccessToken facebookUserId s =
     (if \<not> truthy facebookAccessToken \<or> \<not> truthy facebookUserId
      then Some (Inl (Error ''invalid arguments''), s)
      else
        (case thenHandle (postRequest env
                (authorizeOptions facebookAccessToken facebookUserId) s) of
           None \<Rightarrow> None
         | Some (Inl e, s') \<Rightarrow> Some (Inl e, s')
         | Some (Inr data, s') \<Rightarrow>
             (if data = JUndefined \<or> data = JNull then Some (Inl TypeError, s')
              else Some (Inr data, s'\<lparr>authToken := get data ''token''\<rparr>))))"

definition getRecommendations ::
  "environment \<Rightarrow> state \<Rightarrow> ((error + jsval) \<times> state) option"
where
  "getRecommendations env s =
     (if \<not> truthy (authToken s) then Some (Inl TinderNotAuthorizedError, s)
      else thenHandle (getRequest env
             (JObj [(''url'', JStr (BASE_URL @ ''/user/recs'')),
                    (''headers'', JObj [(''X-Auth-Token'', authToken s)]),
                    (''json'', JBool True)]) s))"

definition getAccount ::
  "environment \<Rightarrow> state \<Rightarrow> ((error + jsval) \<times> state) option"
where
  "getAccount env s =
     (if \<not> truthy (authToken s) then Some (Inl TinderNotAuthorizedError, s)
      else thenHandle (getRequest env
             (JObj [(''url'', JStr (BASE_URL @ ''/meta'')),
                    (''headers'', JObj [(''X-Auth-Token'', authToken s)]),
                    (''json'', JBool True)]) s))"

definition getUser ::
  "environment \<Rightarrow> jsval \<Rightarrow> state \<Rightarrow> ((error + jsval) \<times> state) option"
where
  "getUser env userId s =
     (if \<not> truthy userId then Some (Inl (Error ''invalid arguments''), s)
      else if \<not> truthy (authToken s) then Some (Inl TinderNotAuthorizedError, s)
      else
        (case template [Lit BASE_URL, Lit ''/user/'', Sub userId] of
           Inl e \<Rightarrow> Some (Inl e, s)
         | Inr url \<Rightarrow>
             thenHandle (getRequest env
               (JObj [(''url'', JStr url),
                      (''headers'', JObj [(''X-Auth-Token'', authToken s)]),
                      (''json'', JBool True)]) s)))"

text \<open>
  \<^verbatim>\<open>getUpdates\<close> is the one method that tells a Date from other values. Its argument is
  a Date object, given by its time value in milliseconds since the epoch (\<open>None\<close> for the
  invalid date, whose time value is NaN), or any other value.
\<close>

datatype argument = DateObj "int option" | Plain jsval

definition instanceofDate :: "argument \<Rightarrow> bool" where
  "instanceofDate a = (case a of DateObj t \<Rightarrow> True | Plain v \<Rightarrow> False)"

definition instanceofString :: "argument \<Rightarrow> bool" where
  "instanceofString a = (case a of Plain (JStringObj x) \<Rightarrow> True | _ \<Rightarrow> False)"

definition pad :: "nat \<Rightarrow> nat \<Rightarrow> string" where
  "pad w n = replicate (w - length (digits n)) CHR ''0'' @ digits n"

text \<open>
  Year, month and day of the proleptic Gregorian calendar, from the day number: the
  400-year era and the day of the era, then the year of the era, the day of the year
  (counted from the first of March) and the month (March is 0), one step each.
\<close>

definition civil_month :: "int \<Rightarrow> int \<Rightarrow> int \<Rightarrow> int \<Rightarrow> int \<times> int \<times> int" where
  "civil_month era yoe doy mp =
     (yoe + era * 400 + (if mp < 10 then 0 else 1),
      (if mp < 10 then mp + 3 else mp - 9),
      doy - (153 * mp + 2) div 5 + 1)"

definition civil_doy :: "int \<Rightarrow> int \<Rightarrow> int \<Rightarrow> int \<times> int \<times> int" where
  "civil_doy era yoe doy = civil_month era yoe doy ((5 * doy + 2) div 153)"

definition civil_yoe :: "int \<Rightarrow> int \<Rightarrow> int \<Rightarrow> int \<times> int \<times> int" where
  "civil_yoe era doe yoe = civil_doy era yoe (doe - (365 * yoe + yoe div 4 - yoe div 100))"

definition civil_doe :: "int \<Rightarrow> int \<Rightarrow> int \<times> int \<times> int" where
  "civil_doe era doe =
     civil_yoe era doe ((doe - doe div 1460 + doe div 36524 - doe div 146096) div 365)"

definition civil :: "int \<Rightarrow> int \<times> int \<times> int" where
  "civil days = civil_doe ((days + 719468) div 146097) ((days + 719468) mod 146097)"

text \<open>
  \<^verbatim>\<open>Date.prototype.toISOString\<close>: \<^verbatim>\<open>YYYY-MM-DDTHH:mm:ss.sssZ\<close> in UTC, the year with a
  sign and six digits outside 0 to 9999; a RangeError for the invalid date (no Date has
  a time value beyond 8.64e15 either way).
\<close>

fun format_date :: "int \<times> int \<times> int \<Rightarrow> nat \<Rightarrow> string" where
  "format_date (y, m, d) ms =
     (if 0 \<le> y \<and> y \<le> 9999 then pad 4 (nat y)
      else (if y < 0 then ''-'' else ''+'') @ pad 6 (nat \<bar>y\<bar>))
     @ ''-'' @ pad 2 (nat m) @ ''-'' @ pad 2 (nat d) @ ''T''
     @ pad 2 (ms div 3600000) @ '':'' @ pad 2 (ms div 60000 mod 60) @ '':''
     @ pad 2 (ms div 1000 mod 60) @ ''.'' @ pad 3 (ms mod 1000) @ ''Z''"

definition toISOString :: "int option \<Rightarrow> error + string" where
  "toISOString tv =
     (case tv of
        None \<Rightarrow> Inl RangeError
      | Some t \<Rightarrow>
          (if \<bar>t\<bar> > 8640000000000000 then Inl RangeError
           else Inr (format_date (civil (t div 86400000)) (nat (t mod 86400000)))))"

definition getUpdatesOptions :: "jsval \<Rightarrow> jsval \<Rightarrow> jsval" where
  "getUpdatesOptions lastActivityDate token =
     JObj [(''url'', JStr (BASE_URL @ ''/updates'')),
           (''headers'', JObj [(''X-Auth-Token'', token)]),
           (''body'', JObj [(''last_activity_date'', lastActivityDate)]),
           (''json'', JBool True)]"

definition getUpdates ::
  "environment \<Rightarrow> argument \<Rightarrow> state \<Rightarrow> ((error + jsval) \<times> state) option"
where
  "getUpdates env arg s =
     (let lastActivityDate = (if arg = Plain JUndefined then Plain (JStr []) else arg) in
      if \<not> instanceofDate lastActivityDate
           \<and> \<not> (instanceofString lastActivityDate \<or> lastActivityDate = Plain (JStr []))
      then Some (Inl (Error ''invalid arguments''), s)
      else if \<not> truthy (authToken s) then Some (Inl TinderNotAuthorizedError, s)
      else
        (case (case lastActivityDate of
                 DateObj t \<Rightarrow> map_sum id JStr (toISOString t)
               | Plain v \<Rightarrow> Inr v) of
           Inl e \<Rightarrow> Some (Inl e, s)
         | Inr lad \<Rightarrow>
             thenHandle (postRequest env (getUpdatesOptions lad (authToken s)) s)))"

definition sendMessage ::
  "environment \<Rightarrow> jsval \<Rightarrow> jsval \<Rightarrow> state \<Rightarrow> ((error + jsval) \<times> state) option"
where
  "sendMessage env matchId message s =
     (if \<not> truthy matchId \<or> \<not> truthy message
      then Some (Inl (Error ''invalid arguments''), s)
      else if \<not> truthy (authToken s) then Some (Inl TinderNotAuthorizedError, s)
      else
        (case template [Lit BASE_URL, Lit ''/user/matches/'', Sub matchId] of
           Inl e \<Rightarrow> Some (Inl e, s)
         | Inr url \<Rightarrow>
             thenHandle (postRequest env
               (JObj [(''url'', JStr url),
                      (''headers'', JObj [(''X-Auth-Token'', authToken s)]),
                      (''body'', JObj [(''message'', message)]),
                      (''json'', JBool True)]) s)))"

definition likeOptions ::
  "jsval \<Rightarrow> jsval \<Rightarrow> jsval \<Rightarrow> jsval \<Rightarrow> jsval \<Rightarrow> error + jsval"
where
  "likeOptions userId photoId contentHash sNumber token =
     (case template [Lit BASE_URL, Lit ''/like/'', Sub userId,
                     Lit ''?photoId='', Sub photoId,
                     Lit ''&content_hash='', Sub contentHash,
                     Lit ''&s_number='', Sub sNumber] of
        Inl e \<Rightarrow> Inl e
      | Inr url \<Rightarrow>
          Inr (JObj [(''url'', JStr url),
                     (''headers'', JObj [(''X-Auth-Token'', token)]),
                     (''json'', JBool True)]))"

definition like ::
  "environment \<Rightarrow> jsval \<Rightarrow> jsval \<Rightarrow> jsval \<Rightarrow> jsval \<Rightarrow> state
     \<Rightarrow> ((error + jsval) \<times> state) option"
where
  "like env userId photoId contentHash sNumber s =
     (if \<not> truthy userId then Some (Inl (Error ''invalid arguments''), s)
      else if \<not> truthy (authToken s) then Some (Inl TinderNotAuthorizedError, s)
      else
        (case likeOptions userId photoId contentHash sNumber (authToken s) of
           Inl e \<Rightarrow> Some (Inl e, s)
         | Inr opts \<Rightarrow>
             (case thenHandle (getRequest env opts s) of
                None \<Rightarrow> None
              | Some (Inl e, s') \<Rightarrow> Some (Inl e, s')
              | Some (Inr data, s') \<Rightarrow>
                  (if truthy data \<and> \<not> truthy (get data ''likes_remaining'')
                   then Some (Inl TinderOutOfLikesError, s')
                   else Some (Inr data, s')))))"

definition pass ::
  "environment \<Rightarrow> jsval \<Rightarrow> state \<Rightarrow> ((error + jsval) \<times> state) option"
where
  "pass env userId s =
     (if \<not> truthy userId then Some (Inl (Error ''invalid arguments''), s)
      else if \<not> truthy (authToken s) then Some (Inl TinderNotAuthorizedError, s)
      else
        (case template [Lit BASE_URL, Lit ''/pass/'', Sub userId] of
           Inl e \<Rightarrow> Some (Inl e, s)
         | Inr url \<Rightarrow>
             thenHandle (getRequest env
               (JObj [(''url'', JStr url),
                      (''headers'', JObj [(''X-Auth-Token'', authToken s)]),
                      (''json'', JBool True)]) s)))"

section \<open>Example environments\<close>

text \<open>
  A transport that answers its invocations from a list, each with its delay in
  milliseconds, whatever the verb and the request, and rejects every invocation once
  the list is used up; under it a window of one minute and libraries that accept every
  option.
\<close>

definition scripted :: "(reply \<times> nat) list \<Rightarrow> environment" where
  "scripted rs =
     \<lparr> transport = (\<lambda>n v params.
         if n < length rs then rs ! n else (Rejects (TransportError ''ECONNREFUSED''), 0)),
       window = 60000,
       accepts_request = (\<lambda>v. True),
       accepts_breaker = (\<lambda>v. True) \<rparr>"

definition ok_response :: "jsval \<Rightarrow> response" where
  "ok_response b = \<lparr> statusCode = 200, statusMessage = ''OK'', body = b \<rparr>"

definition server_error :: response where
  "server_error =
     \<lparr> statusCode = 500, statusMessage = ''Internal Server Error'', body = JUndefined \<rparr>"

text \<open>
  The transport answers 500, 500 and then 200 with a body, each at once; and a
  transport that rejects every invocation at once.
\<close>

definition flaky :: environment where
  "flaky = scripted [(Responds server_error, 0), (Responds server_error, 0),
                     (Responds (ok_response (JObj [(''results'', JArr [])])), 0)]"

definition down :: environment where
  "down = scripted []"

text \<open>
  The transport answers the first invocation with status 200 and the given body, as
  parsed from JSON, after 40 milliseconds.
\<close>

definition answers :: "jsval \<Rightarrow> environment" where
  "answers b = scripted [(Responds (ok_response b), 40)]"

text \<open>
  A new client with default options, one that has been authorized, and clients
  constructed with \<^verbatim>\<open>{retry: {max_tries: 3}}\<close> and with
  \<^verbatim>\<open>{retry: {max_tries: 3, timeout: 1500}}\<close>; the request descriptor of
  \<^verbatim>\<open>like('u1')\<close> on the authorized client, and some request descriptor.
\<close>

definition fresh :: state where
  "fresh = initial (defaultsDeep (JObj []) defaultOptions)"

definition authorized :: state where
  "authorized = fresh\<lparr>authToken := JStr ''secret''\<rparr>"

definition three_tries :: state where
  "three_tries =
     initial (defaultsDeep (JObj [(''retry'', JObj [(''max_tries'', JNum 3)])]) defaultOptions)"

definition three_tries_short :: state where
  "three_tries_short =
     initial (defaultsDeep
       (JObj [(''retry'', JObj [(''max_tries'', JNum 3), (''timeout'', JNum 1500)])])
       defaultOptions)"

text \<open>A client with default options whose GET circuit opened at time 0.\<close>

definition tripped :: state where
  "tripped = fresh\<lparr>circuit := (circuit fresh)(GET := Open 0)\<rparr>"

definition like_u1 :: jsval where
  "like_u1 =
     JObj [(''url'', JStr (''https://api.gotinder.com/like/u1''
                           @ ''?photoId=undefined&content_hash=undefined&s_number=undefined'')),
           (''headers'', JObj [(''X-Auth-Token'', JStr ''secret'')]),
           (''json'', JBool True)]"

definition some_request :: jsval where
  "some_request = JObj [(''url'', JStr ''https://api.gotinder.com/meta''), (''json'', JBool True)]"

section \<open>Interpreting responses\<close>

text \<open>
  C4. Whatever response the handler is given: a status of 401 is the authorization
  error, and every other status from 300 is a generic error whose message is the status
  code and the status message.
\<close>

theorem handleResponse_status_from_300:
  assumes "statusCode r \<ge> 300"
  shows "(statusCode r = 401 \<longrightarrow> handleResponse r = Inl TinderNotAuthorizedError) \<and>
         (statusCode r \<noteq> 401 \<longrightarrow>
            handleResponse r = Inl (Error (show_int (statusCode r) @ '' '' @ statusMessage r)))"
  using assms by (simp add: handleResponse_def)

theorem handleResponse_status_from_300_witness:
  "handleResponse \<lparr> statusCode = 401, statusMessage = ''Unauthorized'', body = JUndefined \<rparr>
     = Inl TinderNotAuthorizedError \<and>
   handleResponse \<lparr> statusCode = 404, statusMessage = ''Not Found'', body = JNull \<rparr>
     = Inl (Error ''404 Not Found'')"
  using handleResponse_status_from_300
          [of "\<lparr> statusCode = 401, statusMessage = ''Unauthorized'', body = JUndefined \<rparr>"]
        handleResponse_status_from_300
          [of "\<lparr> statusCode = 404, statusMessage = ''Not Found'', body = JNull \<rparr>"]
  by (simp add: show_int_def digits.simps)

lemma number_string_403: "number_string 403 = ''403''"
  by (simp add: number_string_def magnitude_string_def digits.simps)

lemma bitlen_1e21: "bitlen 1000000000000000000000 = 70"
  by (simp add: bitlen.simps)

lemma bitlen_2e21: "bitlen 2000000000000000000000 = 71"
  by (simp add: bitlen.simps)

lemma nearest_1e21: "nearest_number 1000000000000000000000 = 1000000000000000000000"
  by (simp add: nearest_number_def bitlen_1e21 round_bits_def)

lemma nearest_2e21: "nearest_number 2000000000000000000000 = 2000000000000000000000"
  by (simp add: nearest_number_def bitlen_2e21 round_bits_def)

lemma digits_1e21: "digits 1000000000000000000000 = ''1000000000000000000000''"
  by (simp add: digits.simps)

lemma shortest_1e21: "shortest 1000000000000000000000 22 (Suc 0) = 1000000000000000000000"
  by (subst shortest.simps) (simp add: nearest_1e21 nearest_2e21)

lemma digits_21: "digits 21 = ''21''"
  by (simp add: digits.simps)

lemma length_1e21: "length ''1000000000000000000000'' = 22"
  by simp

lemma exponential_1e21: "exponential ''1000000000000000000000'' = ''1e+21''"
  unfolding exponential_def length_1e21 by (simp add: digits_21)

lemma number_string_1e21: "number_string 1000000000000000000000 = ''1e+21''"
  by (simp add: number_string_def magnitude_string_def nearest_1e21 digits_1e21 shortest_1e21
        decimal_or_exponential_def exponential_1e21 length_1e21 del: length_Cons list.size)

text \<open>
  C5, as the code has it. For a response with a status below 300, interpretation fails
  exactly when the body is truthy and its \<^verbatim>\<open>status\<close> field is truthy and not the number
  200: with a generic error whose message is that field, a blank and \<^verbatim>\<open>body.error\<close>,
  each converted as a template literal converts it, or with the TypeError of a
  conversion that throws. In every other case the body is returned unchanged: a
  \<^verbatim>\<open>status\<close> field that is present but falsy (0, the empty string, null, false) does not
  make the interpretation fail.
\<close>

theorem handleResponse_status_below_300:
  assumes "statusCode r < 300"
  shows "handleResponse r =
           (if truthy (body r) \<and> truthy (get (body r) ''status'')
                \<and> get (body r) ''status'' \<noteq> JNum 200
            then (case template [Sub (get (body r) ''status''), Lit '' '',
                                 Sub (get (body r) ''error'')] of
                    Inl e \<Rightarrow> Inl e
                  | Inr m \<Rightarrow> Inl (Error m))
            else Inr (body r))"
  using assms by (simp add: handleResponse_def)

theorem handleResponse_status_below_300_witness:
  "handleResponse (ok_response (JObj [(''status'', JNum 403), (''error'', JStr ''banned'')]))
     = Inl (Error ''403 banned'') \<and>
   handleResponse (ok_response (JObj [(''status'', JNum 1000000000000000000000), (''error'', JStr ''boom'')]))
     = Inl (Error ''1e+21 boom'') \<and>
   handleResponse (ok_response (JObj [(''status'', JNum 200), (''results'', JArr [])]))
     = Inr (JObj [(''status'', JNum 200), (''results'', JArr [])])"
  using handleResponse_status_below_300
          [of "ok_response (JObj [(''status'', JNum 403), (''error'', JStr ''banned'')])"]
        handleResponse_status_below_300
          [of "ok_response (JObj [(''status'', JNum 1000000000000000000000), (''error'', JStr ''boom'')])"]
        handleResponse_status_below_300
          [of "ok_response (JObj [(''status'', JNum 200), (''results'', JArr [])])"]
  by (simp add: ok_response_def number_string_403 number_string_1e21)

text \<open>
  The claim as the spec words it fails: a body whose \<^verbatim>\<open>status\<close> field is present and
  is 0, not 200, under an HTTP status of 200, is returned and no error is raised; and a
  body whose \<^verbatim>\<open>status\<close> is an object with a \<^verbatim>\<open>toString\<close> property fails with a
  TypeError, not with a generic error.
\<close>

theorem handleResponse_present_status_counterexample:
  "map_of [(''status'', JNum 0), (''error'', JStr ''boom'')] ''status'' = Some (JNum 0) \<and>
   JNum 0 \<noteq> JNum 200 \<and>
   statusCode (ok_response (JObj [(''status'', JNum 0), (''error'', JStr ''boom'')])) < 300 \<and>
   handleResponse (ok_response (JObj [(''status'', JNum 0), (''error'', JStr ''boom'')]))
     = Inr (JObj [(''status'', JNum 0), (''error'', JStr ''boom'')]) \<and>
   handleResponse (ok_response (JObj [(''status'', JObj [(''toString'', JNum 1)]),
                                      (''error'', JStr ''boom'')]))
     = Inl TypeError"
  by (simp add: handleResponse_def ok_response_def)

section \<open>The dispatcher\<close>

lemma invoke_sent: "sent (snd (invoke env v params s)) = sent s @ [(v, params)]"
  by (cases "bounded (as_number (get (get (options s) ''breaker'') ''timeout''))
               (transport env (length (sent s)) v params)")
     (simp add: invoke_def)

lemma exec_response_sent:
  assumes "exec env v params s = (Inr r, s')"
  shows "sent s' = sent s @ [(v, params)]"
proof -
  have "exec env v params s = invoke env v params s"
    using assms by (auto simp add: exec_def split: circuit.splits if_splits)
  with assms invoke_sent [of env v params s] show ?thesis by simp
qed

lemma attempt_server_error:
  assumes "exec env v params s = (Inr r, s')" and "statusCode r \<ge> 500"
  shows "attempt env v params s =
           (Inl (Error (show_int (statusCode r) @ '' '' @ statusMessage r)), s')"
  using assms by (simp add: attempt_def)

lemma attempt_passes:
  assumes "exec env v params s = (Inr r, s')" and "statusCode r < 500"
  shows "attempt env v params s = (Inr r, s')"
  using assms by (simp add: attempt_def)

lemma try_once_success:
  assumes "f s = (Inr r, s')"
  shows "try_once f ropts g i n s = Some (Inr r, s')"
  using assms by (subst try_once.simps) simp

lemma try_once_failure:
  assumes "f s = (Inl e, s')"
  shows "try_once f ropts g i n s =
           (if gives_up (retry_max_tries ropts) g (Suc n) (next_interval ropts (Suc n) i) (clock s')
            then Some (Inl (if truthy (get ropts ''throw_original'') then e else RetryError e), s')
            else try_once f ropts g (next_interval ropts (Suc n) i) (Suc n)
                   (s'\<lparr>clock := resume (next_interval ropts (Suc n) i) (clock s) (clock s')\<rparr>))"
  using assms by (subst try_once.simps) simp

lemma retry_first_success:
  assumes "f s = (Inr r, s')"
  shows "retry f ropts s = Some (Inr r, s')"
  using assms by (simp add: retry_def try_once_success)

lemma no_backoff:
  assumes "\<not> truthy (get ropts ''backoff'')" and "\<not> truthy (get ropts ''max_interval'')"
  shows "next_interval ropts n i = i"
  using assms by (simp add: next_interval_def backoff_def multiplied_def at_most_def)

text \<open>
  C2, as the model of the retry wrapper has it. An attempt whose response has a status
  from 500 fails with a generic error of status code and message, and a failed attempt
  is followed by another one unless the wrapper gives up: because the attempts made
  equal \<^verbatim>\<open>max_tries\<close>, or because the time of the failure plus the interval reaches the
  overall time-out ceiling. With \<^verbatim>\<open>max_tries\<close> 3, an interval, a time-out and no
  backoff, when the breaker's calls of a dispatcher (GET or POST) resolve with a status
  from 500, a status from 500 and the status 200, and the ceiling is not reached after
  the first two (no time-out, or each failure plus the interval comes before the time
  of the call plus the time-out), the dispatch returns the third response and exactly
  three transport invocations have been added, all with the request of the call.
\<close>

theorem dispatch_retries_server_errors:
  "(exec env v params s = (Inr r, s') \<and> 500 \<le> statusCode r \<longrightarrow>
      attempt env v params s =
        (Inl (Error (show_int (statusCode r) @ '' '' @ statusMessage r)), s')) \<and>
   (attempt env v params s = (Inl e, s') \<and>
    \<not> gives_up (retry_max_tries ropts) g (Suc n) (next_interval ropts (Suc n) j) (clock s') \<longrightarrow>
      try_once (attempt env v params) ropts g j n s =
        try_once (attempt env v params) ropts g (next_interval ropts (Suc n) j) (Suc n)
          (s'\<lparr>clock := resume (next_interval ropts (Suc n) j) (clock s) (clock s')\<rparr>)) \<and>
   (get (get (options s) ''retry'') ''max_tries'' = JNum 3 \<and>
    get (get (options s) ''retry'') ''interval'' = JNum i \<and>
    get (get (options s) ''retry'') ''timeout'' = JNum t \<and>
    \<not> truthy (get (get (options s) ''retry'') ''backoff'') \<and>
    \<not> truthy (get (get (options s) ''retry'') ''max_interval'') \<and>
    exec env v params s = (Inr r1, s1) \<and> 500 \<le> statusCode r1 \<and>
    exec env v params (s1\<lparr>clock := max (clock s1) (clock s + i)\<rparr>) = (Inr r2, s2) \<and>
    500 \<le> statusCode r2 \<and>
    exec env v params
      (s2\<lparr>clock := max (clock s2) (max (clock s1) (clock s + i) + i)\<rparr>) = (Inr r3, s3) \<and>
    statusCode r3 = 200 \<and>
    (t = 0 \<or> (clock s1 + i < clock s + t \<and> clock s2 + i < clock s + t)) \<longrightarrow>
      (case v of GET \<Rightarrow> getRequest env params s | POST \<Rightarrow> postRequest env params s)
        = Some (Inr r3, s3) \<and>
      sent s3 = sent s @ [(v, params), (v, params), (v, params)])"
proof (intro conjI impI)
  assume "exec env v params s = (Inr r, s') \<and> 500 \<le> statusCode r"
  then show "attempt env v params s =
        (Inl (Error (show_int (statusCode r) @ '' '' @ statusMessage r)), s')"
    by (simp add: attempt_server_error)
next
  assume "attempt env v params s = (Inl e, s') \<and>
    \<not> gives_up (retry_max_tries ropts) g (Suc n) (next_interval ropts (Suc n) j) (clock s')"
  then show "try_once (attempt env v params) ropts g j n s =
        try_once (attempt env v params) ropts g (next_interval ropts (Suc n) j) (Suc n)
          (s'\<lparr>clock := resume (next_interval ropts (Suc n) j) (clock s) (clock s')\<rparr>)"
    by (simp add: try_once_failure)
next
  let ?ropts = "get (options s) ''retry''"
  let ?f = "attempt env v params"
  let ?w1 = "s1\<lparr>clock := max (clock s1) (clock s + i)\<rparr>"
  let ?w2 = "s2\<lparr>clock := max (clock s2) (max (clock s1) (clock s + i) + i)\<rparr>"
  assume h: "get ?ropts ''max_tries'' = JNum 3 \<and>
    get ?ropts ''interval'' = JNum i \<and>
    get ?ropts ''timeout'' = JNum t \<and>
    \<not> truthy (get ?ropts ''backoff'') \<and>
    \<not> truthy (get ?ropts ''max_interval'') \<and>
    exec env v params s = (Inr r1, s1) \<and> 500 \<le> statusCode r1 \<and>
    exec env v params ?w1 = (Inr r2, s2) \<and> 500 \<le> statusCode r2 \<and>
    exec env v params ?w2 = (Inr r3, s3) \<and> statusCode r3 = 200 \<and>
    (t = 0 \<or> (clock s1 + i < clock s + t \<and> clock s2 + i < clock s + t))"
  let ?g = "giveup_time ?ropts (clock s)"
  have nb: "next_interval ?ropts k x = x" for k x
    using h by (intro no_backoff) simp_all
  have most: "retry_max_tries ?ropts = JNum 3"
    using h by (simp add: retry_max_tries_def)
  have iv: "retry_interval ?ropts = Some i"
    using h by (simp add: retry_interval_def)
  have g: "?g = (if t = 0 then None else Some (clock s + t))"
    using h by (simp add: giveup_time_def)
  have a1: "?f s = (Inl (Error (show_int (statusCode r1) @ '' '' @ statusMessage r1)), s1)"
    using h by (intro attempt_server_error) simp_all
  have a2: "?f ?w1 = (Inl (Error (show_int (statusCode r2) @ '' '' @ statusMessage r2)), s2)"
    using h by (intro attempt_server_error) simp_all
  have a3: "?f ?w2 = (Inr r3, s3)"
    using h by (intro attempt_passes) simp_all
  have n1: "\<not> gives_up (JNum 3) ?g (Suc 0) (Some i) (clock s1)"
    using h by (auto simp add: gives_up_def g)
  have n2: "\<not> gives_up (JNum 3) ?g (Suc (Suc 0)) (Some i) (clock s2)"
    using h by (auto simp add: gives_up_def g)
  have "try_once ?f ?ropts ?g (Some i) 0 s = try_once ?f ?ropts ?g (Some i) (Suc 0) ?w1"
    using n1 by (simp add: try_once_failure [where f = ?f and s = s, OF a1] nb most resume_def)
  also have "\<dots> = try_once ?f ?ropts ?g (Some i) (Suc (Suc 0)) ?w2"
    using n2 by (simp add: try_once_failure [where f = ?f and s = ?w1, OF a2] nb most resume_def)
  also have "\<dots> = Some (Inr r3, s3)"
    by (rule try_once_success [where f = ?f and s = ?w2, OF a3])
  finally have r: "retry ?f ?ropts s = Some (Inr r3, s3)"
    by (simp add: retry_def iv)
  have "sent s1 = sent s @ [(v, params)]"
    using h by (intro exec_response_sent [of env v params s r1]) simp
  moreover have "sent s2 = sent ?w1 @ [(v, params)]"
    using h by (intro exec_response_sent [of env v params ?w1 r2]) simp
  moreover have "sent s3 = sent ?w2 @ [(v, params)]"
    using h by (intro exec_response_sent [of env v params ?w2 r3]) simp
  ultimately have sn: "sent s3 = sent s @ [(v, params), (v, params), (v, params)]"
    by simp
  from r show "(case v of GET \<Rightarrow> getRequest env params s | POST \<Rightarrow> postRequest env params s)
        = Some (Inr r3, s3)"
    by (cases v) (simp_all add: getRequest_def postRequest_def)
  from sn show "sent s3 = sent s @ [(v, params), (v, params), (v, params)]" .
qed

lemma exec_closed:
  assumes "circuit s v = Closed calls"
    and "transport env (length (sent s)) v params = (Responds r, d)"
    and "get (get (options s) ''breaker'') ''timeout'' = JNum tmo" and "int d \<le> tmo"
    and "\<not> crossed (get (get (options s) ''breaker'') ''threshold'')
             (recent (window env) (clock s + int d) ((clock s + int d, False) # calls))"
  shows "exec env v params s =
           (Inr r,
            s\<lparr>circuit := (circuit s)
                  (v := Closed (recent (window env) (clock s + int d)
                                  ((clock s + int d, False) # calls))),
              clock := clock s + int d,
              sent := sent s @ [(v, params)]\<rparr>)"
  using assms
  by (simp add: exec_def invoke_def as_number_def after_call_def failed_def)

lemma options_fresh:
  "get (options fresh) ''retry'' =
     JObj [(''max_tries'', JNum 2), (''interval'', JNum 1000),
           (''timeout'', JNum 16000), (''throw_original'', JBool True)]"
  "get (options fresh) ''breaker'' =
     JObj [(''timeout'', JNum 12000), (''threshold'', JNum 80),
           (''circuitDuration'', JNum 10800000)]"
  by (simp_all add: fresh_def initial_def defaultsDeep_def defaultOptions_def)

lemma options_three_tries:
  "get (options three_tries) ''retry'' =
     JObj [(''max_tries'', JNum 3), (''interval'', JNum 1000),
           (''timeout'', JNum 16000), (''throw_original'', JBool True)]"
  "get (options three_tries) ''breaker'' =
     JObj [(''timeout'', JNum 12000), (''threshold'', JNum 80),
           (''circuitDuration'', JNum 10800000)]"
  by (simp_all add: three_tries_def initial_def defaultsDeep_def defaultOptions_def)

lemma options_three_tries_short:
  "get (options three_tries_short) ''retry'' =
     JObj [(''max_tries'', JNum 3), (''timeout'', JNum 1500),
           (''interval'', JNum 1000), (''throw_original'', JBool True)]"
  "get (options three_tries_short) ''breaker'' =
     JObj [(''timeout'', JNum 12000), (''threshold'', JNum 80),
           (''circuitDuration'', JNum 10800000)]"
  by (simp_all add: three_tries_short_def initial_def defaultsDeep_def defaultOptions_def)

lemma flaky_transport:
  "transport flaky 0 v p = (Responds server_error, 0)"
  "transport flaky (Suc 0) v p = (Responds server_error, 0)"
  "transport flaky (Suc (Suc 0)) v p = (Responds (ok_response (JObj [(''results'', JArr [])])), 0)"
  "window flaky = 60000"
  by (simp_all add: flaky_def scripted_def)

lemma exec_closed_ex:
  assumes "circuit s v = Closed calls"
    and "transport env (length (sent s)) v params = (Responds r, d)"
    and "get (get (options s) ''breaker'') ''timeout'' = JNum tmo" and "int d \<le> tmo"
    and "\<not> crossed (get (get (options s) ''breaker'') ''threshold'')
             (recent (window env) (clock s + int d) ((clock s + int d, False) # calls))"
  shows "\<exists>s'. exec env v params s = (Inr r, s') \<and> options s' = options s \<and>
              authToken s' = authToken s \<and> clock s' = clock s + int d \<and>
              sent s' = sent s @ [(v, params)] \<and>
              circuit s' v = Closed (recent (window env) (clock s + int d)
                                       ((clock s + int d, False) # calls))"
  using exec_closed [OF assms] by simp

text \<open>
  The first two attempts, one second apart, of a client with a closed circuit and the
  default breaker options against the flaky transport, and the third if it is made.
\<close>

lemma flaky_run:
  assumes "circuit s v = Closed []" and "sent s = []" and "clock s = 0"
    and "get (options s) ''breaker'' =
           JObj [(''timeout'', JNum 12000), (''threshold'', JNum 80),
                 (''circuitDuration'', JNum 10800000)]"
  shows "\<exists>s1 s2 s3.
           exec flaky v some_request s = (Inr server_error, s1) \<and>
           exec flaky v some_request (s1\<lparr>clock := max (clock s1) (clock s + 1000)\<rparr>)
             = (Inr server_error, s2) \<and>
           exec flaky v some_request
             (s2\<lparr>clock := max (clock s2) (max (clock s1) (clock s + 1000) + 1000)\<rparr>)
             = (Inr (ok_response (JObj [(''results'', JArr [])])), s3) \<and>
           clock s1 = 0 \<and> clock s2 = 1000 \<and>
           sent s1 = [(v, some_request)] \<and>
           sent s2 = [(v, some_request), (v, some_request)] \<and>
           sent s3 = [(v, some_request), (v, some_request), (v, some_request)]"
proof -
  obtain s1 where s1: "exec flaky v some_request s = (Inr server_error, s1)"
      "options s1 = options s" "clock s1 = 0" "sent s1 = [(v, some_request)]"
      "circuit s1 v = Closed [(0, False)]"
    using exec_closed_ex [where s = s and v = v and env = flaky and params = some_request
                            and calls = "[]" and r = server_error and d = 0 and tmo = 12000]
          assms
    by (auto simp add: flaky_transport recent_def crossed_def as_number_def)
  let ?w1 = "s1\<lparr>clock := max (clock s1) (clock s + 1000)\<rparr>"
  obtain s2 where s2: "exec flaky v some_request ?w1 = (Inr server_error, s2)"
      "options s2 = options s" "clock s2 = 1000"
      "sent s2 = [(v, some_request), (v, some_request)]"
      "circuit s2 v = Closed [(1000, False), (0, False)]"
    using exec_closed_ex [where s = ?w1 and v = v and env = flaky and params = some_request
                            and calls = "[(0, False)]" and r = server_error and d = 0
                            and tmo = 12000]
          assms s1
    by (auto simp add: flaky_transport recent_def crossed_def as_number_def)
  let ?w2 = "s2\<lparr>clock := max (clock s2) (max (clock s1) (clock s + 1000) + 1000)\<rparr>"
  obtain s3 where s3:
      "exec flaky v some_request ?w2 = (Inr (ok_response (JObj [(''results'', JArr [])])), s3)"
      "sent s3 = [(v, some_request), (v, some_request), (v, some_request)]"
    using exec_closed_ex [where s = ?w2 and v = v and env = flaky and params = some_request
                            and calls = "[(1000, False), (0, False)]"
                            and r = "ok_response (JObj [(''results'', JArr [])])" and d = 0
                            and tmo = 12000]
          assms s1 s2
    by (auto simp add: flaky_transport recent_def crossed_def as_number_def)
  from s1 s2 s3 show ?thesis by blast
qed

lemma three_tries_start:
  "circuit three_tries v = Closed []" "sent three_tries = []" "clock three_tries = 0"
  "circuit three_tries_short v = Closed []" "sent three_tries_short = []"
  "clock three_tries_short = 0"
  "circuit fresh v = Closed []" "sent fresh = []" "clock fresh = 0" "authToken fresh = JUndefined"
  by (simp_all add: three_tries_def three_tries_short_def fresh_def initial_def)

theorem dispatch_retries_server_errors_witness:
  "map_option fst (getRequest flaky some_request three_tries)
     = Some (Inr (ok_response (JObj [(''results'', JArr [])]))) \<and>
   map_option (\<lambda>p. sent (snd p)) (getRequest flaky some_request three_tries)
     = Some [(GET, some_request), (GET, some_request), (GET, some_request)] \<and>
   map_option fst (postRequest flaky some_request three_tries)
     = Some (Inr (ok_response (JObj [(''results'', JArr [])]))) \<and>
   map_option (\<lambda>p. sent (snd p)) (postRequest flaky some_request three_tries)
     = Some [(POST, some_request), (POST, some_request), (POST, some_request)]"
proof -
  have run: "\<exists>s3. (case v of GET \<Rightarrow> getRequest flaky some_request three_tries
                          | POST \<Rightarrow> postRequest flaky some_request three_tries)
                 = Some (Inr (ok_response (JObj [(''results'', JArr [])])), s3) \<and>
               sent s3 = [(v, some_request), (v, some_request), (v, some_request)]"
    for v
  proof -
    obtain s1 s2 s3 where
        e1: "exec flaky v some_request three_tries = (Inr server_error, s1)"
      and e2: "exec flaky v some_request
                 (s1\<lparr>clock := max (clock s1) (clock three_tries + 1000)\<rparr>)
                 = (Inr server_error, s2)"
      and e3: "exec flaky v some_request
                 (s2\<lparr>clock := max (clock s2) (max (clock s1) (clock three_tries + 1000) + 1000)\<rparr>)
                 = (Inr (ok_response (JObj [(''results'', JArr [])])), s3)"
      and c: "clock s1 = 0" "clock s2 = 1000"
      using flaky_run [OF three_tries_start(1-3) options_three_tries(2), of v] by blast
    from dispatch_retries_server_errors
            [where env = flaky and v = v and params = some_request and s = three_tries
               and i = 1000 and t = 16000
               and ?r1.0 = server_error and ?r2.0 = server_error
               and ?r3.0 = "ok_response (JObj [(''results'', JArr [])])"
               and ?s1.0 = s1 and ?s2.0 = s2 and ?s3.0 = s3]
         e1 e2 e3 c
    show ?thesis
      by (simp add: options_three_tries three_tries_start server_error_def ok_response_def)
  qed
  from run [of GET] run [of POST] show ?thesis
    by auto
qed

text \<open>
  The claim as the spec words it fails: with \<^verbatim>\<open>max_tries\<close> 3 and the answers 500, 500
  and 200, each at once, but a time-out of 1500 ms under the default interval of
  1000 ms, the wrapper gives up after the second answer, one second after the call: the
  dispatch fails with the error of the second 500 and two transport invocations have
  been made.
\<close>

theorem dispatch_timeout_counterexample:
  "get (get (options three_tries_short) ''retry'') ''max_tries'' = JNum 3 \<and>
   map_option fst (getRequest flaky some_request three_tries_short)
     = Some (Inl (Error ''500 Internal Server Error'')) \<and>
   map_option (\<lambda>p. sent (snd p)) (getRequest flaky some_request three_tries_short)
     = Some [(GET, some_request), (GET, some_request)]"
proof -
  let ?s = three_tries_short
  let ?f = "attempt flaky GET some_request"
  let ?ropts = "get (options ?s) ''retry''"
  obtain s1 s2 where
      e1: "exec flaky GET some_request ?s = (Inr server_error, s1)"
    and e2: "exec flaky GET some_request (s1\<lparr>clock := max (clock s1) (clock ?s + 1000)\<rparr>)
               = (Inr server_error, s2)"
    and c: "clock s1 = 0" "clock s2 = 1000"
    and sn: "sent s2 = [(GET, some_request), (GET, some_request)]"
    using flaky_run [OF three_tries_start(4-6) options_three_tries_short(2), of GET] by blast
  let ?w1 = "s1\<lparr>clock := max (clock s1) (clock ?s + 1000)\<rparr>"
  have a1: "?f ?s = (Inl (Error ''500 Internal Server Error''), s1)"
    using attempt_server_error [OF e1]
    by (simp add: server_error_def show_int_def digits.simps)
  have a2: "?f ?w1 = (Inl (Error ''500 Internal Server Error''), s2)"
    using attempt_server_error [OF e2]
    by (simp add: server_error_def show_int_def digits.simps)
  have p: "retry_max_tries ?ropts = JNum 3" "retry_interval ?ropts = Some 1000"
    "giveup_time ?ropts 0 = Some 1500" "next_interval ?ropts n (Some 1000) = Some 1000"
    "truthy (get ?ropts ''throw_original'')" for n
    by (simp_all add: options_three_tries_short retry_max_tries_def retry_interval_def
          giveup_time_def next_interval_def backoff_def multiplied_def at_most_def)
  have "try_once ?f ?ropts (Some 1500) (Some 1000) 0 ?s
          = try_once ?f ?ropts (Some 1500) (Some 1000) (Suc 0) ?w1"
    by (subst try_once_failure [where f = ?f and s = ?s, OF a1])
       (simp add: p gives_up_def resume_def three_tries_start c)
  also have "\<dots> = Some (Inl (Error ''500 Internal Server Error''), s2)"
    by (subst try_once_failure [where f = ?f and s = ?w1, OF a2])
       (simp add: p gives_up_def c)
  finally have "getRequest flaky some_request ?s
                  = Some (Inl (Error ''500 Internal Server Error''), s2)"
    by (simp add: getRequest_def retry_def p three_tries_start)
  with sn show ?thesis
    by (simp add: options_three_tries_short)
qed

text \<open>
  A client with a closed circuit and the default breaker options, against a transport
  that answers its first invocation with status 200 after 40 ms: the dispatch returns
  that response from its first attempt.
\<close>

lemma dispatch_answered:
  assumes "circuit s v = Closed []" and "sent s = []"
    and "get (options s) ''breaker'' =
           JObj [(''timeout'', JNum 12000), (''threshold'', JNum 80),
                 (''circuitDuration'', JNum 10800000)]"
  shows "\<exists>s'. exec (answers b) v params s = (Inr (ok_response b), s') \<and>
              (case v of GET \<Rightarrow> getRequest (answers b) params s
                       | POST \<Rightarrow> postRequest (answers b) params s)
                = Some (Inr (ok_response b), s') \<and>
              authToken s' = authToken s \<and> sent s' = [(v, params)]"
proof -
  obtain s' where s': "exec (answers b) v params s = (Inr (ok_response b), s')"
      "authToken s' = authToken s" "sent s' = [(v, params)]"
    using exec_closed_ex [where s = s and v = v and env = "answers b" and params = params
                            and calls = "[]" and r = "ok_response b" and d = 40
                            and tmo = 12000]
          assms
    by (auto simp add: answers_def scripted_def recent_def crossed_def as_number_def)
  have "attempt (answers b) v params s = (Inr (ok_response b), s')"
    using s'(1) by (intro attempt_passes) (simp_all add: ok_response_def)
  then have "retry (attempt (answers b) v params) (get (options s) ''retry'') s
               = Some (Inr (ok_response b), s')"
    by (rule retry_first_success)
  then have "(case v of GET \<Rightarrow> getRequest (answers b) params s
                      | POST \<Rightarrow> postRequest (answers b) params s)
               = Some (Inr (ok_response b), s')"
    by (cases v) (simp_all add: getRequest_def postRequest_def)
  with s' show ?thesis by blast
qed

lemma authorized_start:
  "circuit authorized v = Closed []" "sent authorized = []" "clock authorized = 0"
  "authToken authorized = JStr ''secret''"
  "get (options authorized) ''breaker'' =
     JObj [(''timeout'', JNum 12000), (''threshold'', JNum 80),
           (''circuitDuration'', JNum 10800000)]"
  using options_fresh(2) by (simp_all add: authorized_def three_tries_start)

section \<open>Calls without a session credential\<close>

text \<open>
  C1, as the code has it. Without a session credential (absent, or falsy in any other
  way) every authenticated operation fails before any transport invocation, the client
  and the record of transport invocations left as they were: with the authorization
  error when its arguments pass validation, and with the generic error
  \<^verbatim>\<open>invalid arguments\<close> when they do not, since each method validates its arguments
  before it looks at the credential.
\<close>

theorem no_credential_fails_before_transport:
  assumes "\<not> truthy (authToken s)"
  shows "getRecommendations env s = Some (Inl TinderNotAuthorizedError, s) \<and>
         getAccount env s = Some (Inl TinderNotAuthorizedError, s) \<and>
         getUser env userId s =
           Some (Inl (if truthy userId then TinderNotAuthorizedError
                      else Error ''invalid arguments''), s) \<and>
         getUpdates env arg s =
           Some (Inl (case arg of
                        DateObj t \<Rightarrow> TinderNotAuthorizedError
                      | Plain JUndefined \<Rightarrow> TinderNotAuthorizedError
                      | Plain (JStringObj x) \<Rightarrow> TinderNotAuthorizedError
                      | Plain (JStr x) \<Rightarrow>
                          (if x = [] then TinderNotAuthorizedError
                           else Error ''invalid arguments'')
                      | Plain _ \<Rightarrow> Error ''invalid arguments''), s) \<and>
         sendMessage env matchId message s =
           Some (Inl (if truthy matchId \<and> truthy message then TinderNotAuthorizedError
                      else Error ''invalid arguments''), s) \<and>
         like env likedId photoId contentHash sNumber s =
           Some (Inl (if truthy likedId then TinderNotAuthorizedError
                      else Error ''invalid arguments''), s) \<and>
         pass env passedId s =
           Some (Inl (if truthy passedId then TinderNotAuthorizedError
                      else Error ''invalid arguments''), s)"
proof -
  have "getUpdates env arg s =
           Some (Inl (case arg of
                        DateObj t \<Rightarrow> TinderNotAuthorizedError
                      | Plain JUndefined \<Rightarrow> TinderNotAuthorizedError
                      | Plain (JStringObj x) \<Rightarrow> TinderNotAuthorizedError
                      | Plain (JStr x) \<Rightarrow>
                          (if x = [] then TinderNotAuthorizedError
                           else Error ''invalid arguments'')
                      | Plain _ \<Rightarrow> Error ''invalid arguments''), s)"
    using assms
    by (simp add: getUpdates_def instanceofDate_def instanceofString_def
          split: argument.splits jsval.splits)
  then show ?thesis
    using assms
    by (simp add: getRecommendations_def getAccount_def getUser_def sendMessage_def
          like_def pass_def)
qed

theorem no_credential_fails_before_transport_witness:
  "\<not> truthy (authToken fresh) \<and> sent fresh = [] \<and>
   getRecommendations flaky fresh = Some (Inl TinderNotAuthorizedError, fresh) \<and>
   getAccount flaky fresh = Some (Inl TinderNotAuthorizedError, fresh) \<and>
   getUser flaky (JStr ''u1'') fresh = Some (Inl TinderNotAuthorizedError, fresh) \<and>
   getUpdates flaky (DateObj (Some 0)) fresh = Some (Inl TinderNotAuthorizedError, fresh) \<and>
   sendMessage flaky (JStr ''m1'') (JStr ''hello'') fresh
     = Some (Inl TinderNotAuthorizedError, fresh) \<and>
   like flaky (JStr ''u1'') JUndefined JUndefined JUndefined fresh
     = Some (Inl TinderNotAuthorizedError, fresh) \<and>
   pass flaky JNull fresh = Some (Inl (Error ''invalid arguments''), fresh)"
proof -
  have a: "\<not> truthy (authToken fresh)" "sent fresh = []"
    by (simp_all add: three_tries_start)
  show ?thesis
    using a no_credential_fails_before_transport
            [OF a(1), of flaky "JStr ''u1''" "DateObj (Some 0)" "JStr ''m1''" "JStr ''hello''"
                "JStr ''u1''" JUndefined JUndefined JUndefined JNull]
    by simp
qed

text \<open>
  The claim as the spec words it fails: \<^verbatim>\<open>getUser()\<close> on a client without a credential
  fails with the generic error \<^verbatim>\<open>invalid arguments\<close>, which is not the authorization error.
\<close>

theorem getUser_no_credential_counterexample:
  "authToken fresh = JUndefined \<and>
   getUser flaky JUndefined fresh = Some (Inl (Error ''invalid arguments''), fresh) \<and>
   map_option fst (getUser flaky JUndefined fresh) \<noteq> Some (Inl TinderNotAuthorizedError)"
  by (simp add: three_tries_start getUser_def)

section \<open>Authorizing\<close>

text \<open>
  C6, as the code has it. With a facebook token or a facebook user id that is missing
  (or falsy in any other way) \<^verbatim>\<open>authorize\<close> fails with the generic error
  \<^verbatim>\<open>invalid arguments\<close> and nothing is sent. With both present, when the breaker's call
  of the request resolves with a response of status 200 and a body that has a \<^verbatim>\<open>token\<close>
  field and no truthy application-level \<^verbatim>\<open>status\<close> other than 200, that body is
  returned, the session credential is that token afterwards, and one POST has been sent.
\<close>

theorem authorize_sets_credential:
  "(\<not> truthy fbToken \<or> \<not> truthy fbId \<longrightarrow>
      authorize env fbToken fbId s = Some (Inl (Error ''invalid arguments''), s)) \<and>
   (truthy fbToken \<and> truthy fbId \<and>
    exec env POST (authorizeOptions fbToken fbId) s = (Inr r, s') \<and>
    statusCode r = 200 \<and> body r = JObj ps \<and> map_of ps ''token'' = Some t \<and>
    \<not> (truthy (get (JObj ps) ''status'') \<and> get (JObj ps) ''status'' \<noteq> JNum 200) \<longrightarrow>
      authorize env fbToken fbId s = Some (Inr (body r), s'\<lparr>authToken := t\<rparr>) \<and>
      sent s' = sent s @ [(POST, authorizeOptions fbToken fbId)])"
proof (intro conjI impI)
  assume "\<not> truthy fbToken \<or> \<not> truthy fbId"
  then show "authorize env fbToken fbId s = Some (Inl (Error ''invalid arguments''), s)"
    by (auto simp add: authorize_def)
next
  let ?opts = "authorizeOptions fbToken fbId"
  assume h: "truthy fbToken \<and> truthy fbId \<and>
    exec env POST ?opts s = (Inr r, s') \<and>
    statusCode r = 200 \<and> body r = JObj ps \<and> map_of ps ''token'' = Some t \<and>
    \<not> (truthy (get (JObj ps) ''status'') \<and> get (JObj ps) ''status'' \<noteq> JNum 200)"
  then have "attempt env POST ?opts s = (Inr r, s')"
    by (intro attempt_passes) simp_all
  then have "postRequest env ?opts s = Some (Inr r, s')"
    unfolding postRequest_def by (rule retry_first_success)
  moreover have "handleResponse r = Inr (JObj ps)"
    using h by (auto simp add: handleResponse_def)
  ultimately have "thenHandle (postRequest env ?opts s) = Some (Inr (JObj ps), s')"
    by (simp add: thenHandle_def)
  then show "authorize env fbToken fbId s = Some (Inr (body r), s'\<lparr>authToken := t\<rparr>)"
    using h by (simp add: authorize_def)
  from h show "sent s' = sent s @ [(POST, ?opts)]"
    by (intro exec_response_sent [of env POST ?opts s r]) simp
qed

theorem authorize_sets_credential_witness:
  "authorize (answers (JObj [(''token'', JStr ''abc'')])) JUndefined (JStr ''id'') fresh
     = Some (Inl (Error ''invalid arguments''), fresh) \<and>
   map_option fst
     (authorize (answers (JObj [(''token'', JStr ''abc'')])) (JStr ''fb'') (JStr ''id'') fresh)
     = Some (Inr (JObj [(''token'', JStr ''abc'')])) \<and>
   map_option (\<lambda>p. authToken (snd p))
     (authorize (answers (JObj [(''token'', JStr ''abc'')])) (JStr ''fb'') (JStr ''id'') fresh)
     = Some (JStr ''abc'') \<and>
   map_option (\<lambda>p. sent (snd p))
     (authorize (answers (JObj [(''token'', JStr ''abc'')])) (JStr ''fb'') (JStr ''id'') fresh)
     = Some [(POST, authorizeOptions (JStr ''fb'') (JStr ''id''))]"
proof -
  let ?b = "JObj [(''token'', JStr ''abc'')]"
  obtain s' where s':
      "exec (answers ?b) POST (authorizeOptions (JStr ''fb'') (JStr ''id'')) fresh
         = (Inr (ok_response ?b), s')"
      "sent s' = [(POST, authorizeOptions (JStr ''fb'') (JStr ''id''))]"
    using dispatch_answered [OF three_tries_start(7,8) options_fresh(2), of ?b POST]
    by blast
  from authorize_sets_credential
         [of JUndefined "JStr ''id''" "answers ?b" fresh]
       authorize_sets_credential
         [of "JStr ''fb''" "JStr ''id''" "answers ?b" fresh "ok_response ?b" s'
             "[(''token'', JStr ''abc'')]" "JStr ''abc''"]
       s'
  show ?thesis
    by (simp add: ok_response_def)
qed

text \<open>
  The claim as the spec words it fails: both arguments are present and the response has
  status 200 and a body with a \<^verbatim>\<open>token\<close> field, but the body also has a \<^verbatim>\<open>status\<close> of
  500; the call fails with a generic error and the credential is still undefined.
\<close>

theorem authorize_token_counterexample:
  "statusCode (ok_response (JObj [(''token'', JStr ''abc''), (''status'', JNum 500),
                                   (''error'', JStr ''boom'')])) = 200 \<and>
   map_option fst
     (authorize (answers (JObj [(''token'', JStr ''abc''), (''status'', JNum 500),
                                (''error'', JStr ''boom'')])) (JStr ''fb'') (JStr ''id'') fresh)
     = Some (Inl (Error ''500 boom'')) \<and>
   map_option (\<lambda>p. authToken (snd p))
     (authorize (answers (JObj [(''token'', JStr ''abc''), (''status'', JNum 500),
                                (''error'', JStr ''boom'')])) (JStr ''fb'') (JStr ''id'') fresh)
     = Some JUndefined"
proof -
  let ?b = "JObj [(''token'', JStr ''abc''), (''status'', JNum 500), (''error'', JStr ''boom'')]"
  obtain s' where s':
      "postRequest (answers ?b) (authorizeOptions (JStr ''fb'') (JStr ''id'')) fresh
         = Some (Inr (ok_response ?b), s')"
      "authToken s' = authToken fresh"
    using dispatch_answered [OF three_tries_start(7,8) options_fresh(2), of ?b POST]
    by auto
  have "handleResponse (ok_response ?b) = Inl (Error ''500 boom'')"
    by (simp add: handleResponse_def ok_response_def number_string_def magnitude_string_def
          digits.simps)
  with s' show ?thesis
    by (simp add: authorize_def thenHandle_def three_tries_start ok_response_def)
qed

section \<open>Liking\<close>

text \<open>
  C7. When the call of \<^verbatim>\<open>like\<close> has a user id and a credential, its request is built
  and the interpreted response body is \<open>data\<close>: with \<^verbatim>\<open>likes_remaining\<close> equal to 0 the
  call fails with the out-of-likes error instead of returning, and with
  \<^verbatim>\<open>likes_remaining\<close> equal to 5 it returns that body unchanged.
\<close>

theorem like_likes_remaining:
  assumes "truthy userId" and "truthy (authToken s)"
    and "likeOptions userId photoId contentHash sNumber (authToken s) = Inr opts"
    and "thenHandle (getRequest env opts s) = Some (Inr data, s')"
  shows "(get data ''likes_remaining'' = JNum 0 \<longrightarrow>
            like env userId photoId contentHash sNumber s
              = Some (Inl TinderOutOfLikesError, s')) \<and>
         (get data ''likes_remaining'' = JNum 5 \<longrightarrow>
            like env userId photoId contentHash sNumber s = Some (Inr data, s'))"
proof (intro conjI impI)
  assume z: "get data ''likes_remaining'' = JNum 0"
  then have "truthy data" by (cases data) simp_all
  with z assms
  show "like env userId photoId contentHash sNumber s = Some (Inl TinderOutOfLikesError, s')"
    by (simp add: like_def)
next
  assume "get data ''likes_remaining'' = JNum 5"
  with assms show "like env userId photoId contentHash sNumber s = Some (Inr data, s')"
    by (simp add: like_def)
qed

lemma likeOptions_u1:
  "likeOptions (JStr ''u1'') JUndefined JUndefined JUndefined (authToken authorized)
     = Inr like_u1"
  by (simp add: likeOptions_def like_u1_def BASE_URL_def authorized_start)

lemma like_request_answered:
  "\<exists>s'. thenHandle (getRequest (answers b) like_u1 authorized)
            = Some (handleResponse (ok_response b), s') \<and>
         sent s' = [(GET, like_u1)]"
proof -
  obtain s' where "getRequest (answers b) like_u1 authorized = Some (Inr (ok_response b), s')"
      "sent s' = [(GET, like_u1)]"
    using dispatch_answered [OF authorized_start(1,2,5), of b GET like_u1] by auto
  then show ?thesis
    by (simp add: thenHandle_def)
qed

theorem like_likes_remaining_witness:
  "map_option fst
     (like (answers (JObj [(''match'', JBool False), (''likes_remaining'', JNum 0)]))
        (JStr ''u1'') JUndefined JUndefined JUndefined authorized)
     = Some (Inl TinderOutOfLikesError) \<and>
   map_option fst
     (like (answers (JObj [(''match'', JBool False), (''likes_remaining'', JNum 5)]))
        (JStr ''u1'') JUndefined JUndefined JUndefined authorized)
     = Some (Inr (JObj [(''match'', JBool False), (''likes_remaining'', JNum 5)])) \<and>
   map_option (\<lambda>p. sent (snd p))
     (like (answers (JObj [(''match'', JBool False), (''likes_remaining'', JNum 5)]))
        (JStr ''u1'') JUndefined JUndefined JUndefined authorized)
     = Some [(GET, like_u1)]"
proof -
  have t: "truthy (JStr ''u1'')" "truthy (authToken authorized)"
    by (simp_all add: authorized_start)
  have h: "handleResponse (ok_response (JObj [(''match'', JBool False), (''likes_remaining'', JNum n)]))
           = Inr (JObj [(''match'', JBool False), (''likes_remaining'', JNum n)])" for n
    by (simp add: handleResponse_def ok_response_def)
  obtain s0 where r0:
      "thenHandle (getRequest
         (answers (JObj [(''match'', JBool False), (''likes_remaining'', JNum 0)]))
         like_u1 authorized)
       = Some (Inr (JObj [(''match'', JBool False), (''likes_remaining'', JNum 0)]), s0)"
    using like_request_answered
            [of "JObj [(''match'', JBool False), (''likes_remaining'', JNum 0)]"]
    by (auto simp add: h)
  obtain s5 where r5:
      "thenHandle (getRequest
         (answers (JObj [(''match'', JBool False), (''likes_remaining'', JNum 5)]))
         like_u1 authorized)
       = Some (Inr (JObj [(''match'', JBool False), (''likes_remaining'', JNum 5)]), s5)"
      and sn: "sent s5 = [(GET, like_u1)]"
    using like_request_answered
            [of "JObj [(''match'', JBool False), (''likes_remaining'', JNum 5)]"]
    by (auto simp add: h)
  show ?thesis
    using like_likes_remaining [OF t likeOptions_u1 r0]
          like_likes_remaining [OF t likeOptions_u1 r5] sn
    by simp
qed

text \<open>
  C10, as the code has it. Under the same conditions, a truthy interpreted body is
  returned exactly when its \<^verbatim>\<open>likes_remaining\<close> is truthy, and makes the call fail with
  the out-of-likes error when that field is absent or falsy in any way (0, null, false,
  the empty string, NaN). A falsy interpreted body (null, undefined, the empty string,
  0, false) passes the check and is returned as it is.
\<close>

theorem like_truthiness:
  assumes "truthy userId" and "truthy (authToken s)"
    and "likeOptions userId photoId contentHash sNumber (authToken s) = Inr opts"
    and "thenHandle (getRequest env opts s) = Some (Inr data, s')"
  shows "like env userId photoId contentHash sNumber s =
           (if truthy data
            then (if truthy (get data ''likes_remaining'')
                  then Some (Inr data, s') else Some (Inl TinderOutOfLikesError, s'))
            else Some (Inr data, s'))"
  using assms by (simp add: like_def)

theorem like_truthiness_witness:
  "map_option fst
     (like (answers (JObj [(''match'', JBool False)]))
        (JStr ''u1'') JUndefined JUndefined JUndefined authorized)
     = Some (Inl TinderOutOfLikesError) \<and>
   map_option fst
     (like (answers (JObj [(''likes_remaining'', JNull)]))
        (JStr ''u1'') JUndefined JUndefined JUndefined authorized)
     = Some (Inl TinderOutOfLikesError) \<and>
   map_option fst
     (like (answers (JObj [(''likes_remaining'', JNum 99)]))
        (JStr ''u1'') JUndefined JUndefined JUndefined authorized)
     = Some (Inr (JObj [(''likes_remaining'', JNum 99)]))"
proof -
  have t: "truthy (JStr ''u1'')" "truthy (authToken authorized)"
    by (simp_all add: authorized_start)
  have h: "handleResponse (ok_response (JObj [(''match'', v)])) = Inr (JObj [(''match'', v)])"
          "handleResponse (ok_response (JObj [(''likes_remaining'', v)]))
             = Inr (JObj [(''likes_remaining'', v)])" for v
    by (simp_all add: handleResponse_def ok_response_def)
  obtain s1 where r1:
      "thenHandle (getRequest (answers (JObj [(''match'', JBool False)])) like_u1 authorized)
       = Some (Inr (JObj [(''match'', JBool False)]), s1)"
    using like_request_answered [of "JObj [(''match'', JBool False)]"] by (auto simp add: h)
  obtain s2 where r2:
      "thenHandle (getRequest (answers (JObj [(''likes_remaining'', JNull)])) like_u1 authorized)
       = Some (Inr (JObj [(''likes_remaining'', JNull)]), s2)"
    using like_request_answered [of "JObj [(''likes_remaining'', JNull)]"] by (auto simp add: h)
  obtain s3 where r3:
      "thenHandle (getRequest (answers (JObj [(''likes_remaining'', JNum 99)])) like_u1 authorized)
       = Some (Inr (JObj [(''likes_remaining'', JNum 99)]), s3)"
    using like_request_answered [of "JObj [(''likes_remaining'', JNum 99)]"]
    by (auto simp add: h)
  show ?thesis
    using like_truthiness [OF t likeOptions_u1 r1] like_truthiness [OF t likeOptions_u1 r2]
          like_truthiness [OF t likeOptions_u1 r3]
    by simp
qed

text \<open>
  The claim as the spec words it fails: a JSON body \<^verbatim>\<open>null\<close> under status 200 is
  falsy, and it is returned to the caller although it has no \<^verbatim>\<open>likes_remaining\<close>,
  truthy or not.
\<close>

theorem like_null_body_counterexample:
  "map_option fst
     (like (answers JNull) (JStr ''u1'') JUndefined JUndefined JUndefined authorized)
     = Some (Inr JNull) \<and>
   map_option (\<lambda>p. sent (snd p))
     (like (answers JNull) (JStr ''u1'') JUndefined JUndefined JUndefined authorized)
     = Some [(GET, like_u1)] \<and>
   \<not> truthy JNull \<and> \<not> truthy (get JNull ''likes_remaining'')"
proof -
  obtain s' where "thenHandle (getRequest (answers JNull) like_u1 authorized)
                     = Some (Inr JNull, s')" "sent s' = [(GET, like_u1)]"
    using like_request_answered [of JNull]
    by (auto simp add: handleResponse_def ok_response_def)
  then show ?thesis
    using likeOptions_u1 by (simp add: like_def authorized_start)
qed

section \<open>Polling for updates\<close>

lemma civil_epoch: "civil 0 = (1970, 1, 1)"
  by (simp add: civil_def civil_doe_def civil_yoe_def civil_doy_def civil_month_def)

lemma replicate_two: "replicate 2 c = [c, c]"
  by (simp add: numeral_2_eq_2)

lemma pad_epoch:
  "pad 4 1970 = ''1970''" "pad 2 (Suc 0) = ''01''" "pad 2 0 = ''00''" "pad 3 0 = ''000''"
  by (simp_all add: pad_def digits.simps replicate_two)

lemma toISOString_epoch: "toISOString (Some 0) = Inr ''1970-01-01T00:00:00.000Z''"
  by (simp add: toISOString_def civil_epoch pad_epoch)

lemma updates_request_answered:
  "\<exists>s'. thenHandle (postRequest (answers b) (getUpdatesOptions lad (authToken authorized))
                      authorized)
            = Some (handleResponse (ok_response b), s') \<and>
         sent s' = [(POST, getUpdatesOptions lad (JStr ''secret''))]"
proof -
  obtain s' where
      "postRequest (answers b) (getUpdatesOptions lad (authToken authorized)) authorized
         = Some (Inr (ok_response b), s')"
      "sent s' = [(POST, getUpdatesOptions lad (authToken authorized))]"
    using dispatch_answered
            [OF authorized_start(1,2,5), of b POST "getUpdatesOptions lad (authToken authorized)"]
    by auto
  then show ?thesis
    by (simp add: thenHandle_def authorized_start)
qed

text \<open>
  C3, as the code has it. On a client with a credential, \<^verbatim>\<open>getUpdates\<close> dispatches a POST
  whose body's \<^verbatim>\<open>last_activity_date\<close> is: the ISO-8601 string of a Date argument that has
  one (a valid date); the empty string when the argument is omitted, undefined or the
  empty string; a String object given as argument, as it is and whatever its text. An
  argument that is neither a Date, nor a string or String object, nor undefined fails
  with the generic error \<^verbatim>\<open>invalid arguments\<close> and nothing is sent. (Nothing is said
  here of a primitive string that is not empty.)
\<close>

theorem getUpdates_last_activity_date:
  assumes "truthy (authToken s)"
  shows "(toISOString t = Inr isoString \<longrightarrow>
            getUpdates env (DateObj t) s =
              thenHandle (postRequest env (getUpdatesOptions (JStr isoString) (authToken s)) s)) \<and>
         getUpdates env (Plain JUndefined) s =
           thenHandle (postRequest env (getUpdatesOptions (JStr []) (authToken s)) s) \<and>
         getUpdates env (Plain (JStr [])) s =
           thenHandle (postRequest env (getUpdatesOptions (JStr []) (authToken s)) s) \<and>
         getUpdates env (Plain (JStringObj x)) s =
           thenHandle (postRequest env (getUpdatesOptions (JStringObj x) (authToken s)) s) \<and>
         ((case v of JUndefined \<Rightarrow> False | JStr y \<Rightarrow> False | JStringObj y \<Rightarrow> False | _ \<Rightarrow> True) \<longrightarrow>
            getUpdates env (Plain v) s = Some (Inl (Error ''invalid arguments''), s)) \<and>
         get (get (getUpdatesOptions lad (authToken s)) ''body'') ''last_activity_date'' = lad"
proof -
  have "getUpdates env (Plain v) s = Some (Inl (Error ''invalid arguments''), s)"
    if "case v of JUndefined \<Rightarrow> False | JStr y \<Rightarrow> False | JStringObj y \<Rightarrow> False | _ \<Rightarrow> True"
    using that
    by (cases v) (simp_all add: getUpdates_def instanceofDate_def instanceofString_def)
  then show ?thesis
    using assms
    by (simp add: getUpdates_def getUpdatesOptions_def instanceofDate_def instanceofString_def)
qed

theorem getUpdates_last_activity_date_witness:
  "map_option fst
     (getUpdates (answers (JObj [(''matches'', JArr [])])) (DateObj (Some 0)) authorized)
     = Some (Inr (JObj [(''matches'', JArr [])])) \<and>
   map_option (\<lambda>p. sent (snd p))
     (getUpdates (answers (JObj [(''matches'', JArr [])])) (DateObj (Some 0)) authorized)
     = Some [(POST, getUpdatesOptions (JStr ''1970-01-01T00:00:00.000Z'') (JStr ''secret''))] \<and>
   map_option (\<lambda>p. sent (snd p))
     (getUpdates (answers (JObj [(''matches'', JArr [])])) (Plain JUndefined) authorized)
     = Some [(POST, getUpdatesOptions (JStr []) (JStr ''secret''))] \<and>
   getUpdates (answers (JObj [(''matches'', JArr [])])) (Plain (JNum 1490475480404)) authorized
     = Some (Inl (Error ''invalid arguments''), authorized)"
proof -
  let ?b = "JObj [(''matches'', JArr [])]"
  have t: "truthy (authToken authorized)"
    by (simp add: authorized_start)
  have h: "handleResponse (ok_response ?b) = Inr ?b"
    by (simp add: handleResponse_def ok_response_def)
  obtain s1 where r1:
      "thenHandle (postRequest (answers ?b)
         (getUpdatesOptions (JStr ''1970-01-01T00:00:00.000Z'') (authToken authorized)) authorized)
       = Some (Inr ?b, s1)"
      "sent s1 = [(POST, getUpdatesOptions (JStr ''1970-01-01T00:00:00.000Z'') (JStr ''secret''))]"
    using updates_request_answered [of ?b "JStr ''1970-01-01T00:00:00.000Z''"]
    by (auto simp add: h)
  obtain s2 where r2:
      "thenHandle (postRequest (answers ?b)
         (getUpdatesOptions (JStr []) (authToken authorized)) authorized)
       = Some (Inr ?b, s2)"
      "sent s2 = [(POST, getUpdatesOptions (JStr []) (JStr ''secret''))]"
    using updates_request_answered [of ?b "JStr []"]
    by (auto simp add: h)
  show ?thesis
    using getUpdates_last_activity_date
            [OF t, of "Some 0" "''1970-01-01T00:00:00.000Z''" "answers ?b" _
               "JNum 1490475480404"]
          r1 r2
    by (simp add: toISOString_epoch)
qed

text \<open>
  The claim as the spec words it fails: a String object whose text is no ISO-8601 date
  is accepted and sent as it is; and for the invalid date, which is a Date, nothing is
  sent: the call is rejected with the RangeError of \<^verbatim>\<open>toISOString\<close>.
\<close>

theorem getUpdates_argument_counterexample:
  "map_option fst
     (getUpdates (answers (JObj [(''matches'', JArr [])])) (Plain (JStringObj ''hello''))
        authorized)
     = Some (Inr (JObj [(''matches'', JArr [])])) \<and>
   map_option (\<lambda>p. sent (snd p))
     (getUpdates (answers (JObj [(''matches'', JArr [])])) (Plain (JStringObj ''hello''))
        authorized)
     = Some [(POST, getUpdatesOptions (JStringObj ''hello'') (JStr ''secret''))] \<and>
   getUpdates (answers (JObj [(''matches'', JArr [])])) (DateObj None) authorized
     = Some (Inl RangeError, authorized)"
proof -
  let ?b = "JObj [(''matches'', JArr [])]"
  have t: "truthy (authToken authorized)"
    by (simp add: authorized_start)
  have h: "handleResponse (ok_response ?b) = Inr ?b"
    by (simp add: handleResponse_def ok_response_def)
  obtain s1 where r1:
      "thenHandle (postRequest (answers ?b)
         (getUpdatesOptions (JStringObj ''hello'') (authToken authorized)) authorized)
       = Some (Inr ?b, s1)"
      "sent s1 = [(POST, getUpdatesOptions (JStringObj ''hello'') (JStr ''secret''))]"
    using updates_request_answered [of ?b "JStringObj ''hello''"]
    by (auto simp add: h)
  then show ?thesis
    using t
    by (simp add: getUpdates_def instanceofDate_def instanceofString_def toISOString_def)
qed

text \<open>
  A primitive string that is not empty is no instance of \<^verbatim>\<open>String\<close>: the ISO-8601 string
  of a date, passed as it is, is refused, and nothing is sent.
\<close>

lemma getUpdates_primitive_string:
  "getUpdates env (Plain (JStr ''2017-03-25T20:58:00.404Z'')) authorized
     = Some (Inl (Error ''invalid arguments''), authorized)"
  by (simp add: getUpdates_def instanceofDate_def instanceofString_def)

section \<open>Merging the options with the defaults\<close>

lemma get_update:
  "get (JObj (AList.update k v ps)) k' = (if k' = k then v else get (JObj ps) k')"
  by (simp add: update_conv')

lemma get_mergeProps:
  assumes "distinct (map fst ds)"
  shows "get (JObj (mergeProps ps ds)) k =
           (case map_of ds k of
              None \<Rightarrow> get (JObj ps) k
            | Some d \<Rightarrow> mergeValue (get (JObj ps) k) d)"
  using assms
proof (induction ds arbitrary: ps)
  case Nil
  then show ?case by simp
next
  case (Cons kd ds)
  obtain k' d where kd: "kd = (k', d)" by (cases kd)
  from Cons.prems kd have dist: "distinct (map fst ds)" and fresh: "k' \<notin> fst ` set ds"
    by simp_all
  from fresh have none: "map_of ds k' = None"
    by (simp add: map_of_eq_None_iff)
  have step: "get (JObj (mergeProps ps (kd # ds))) k =
        (case map_of ds k of
           None \<Rightarrow> get (JObj (AList.update k' (mergeValue (get (JObj ps) k') d) ps)) k
         | Some d' \<Rightarrow>
             mergeValue (get (JObj (AList.update k' (mergeValue (get (JObj ps) k') d) ps)) k) d')"
    unfolding kd mergeProps.simps by (rule Cons.IH [OF dist])
  show ?case
  proof (cases "k = k'")
    case True
    with none step kd show ?thesis
      by (simp add: get_update del: get.simps(1))
  next
    case False
    with step kd show ?thesis
      by (simp add: get_update del: get.simps(1) cong: option.case_cong)
  qed
qed

lemma mergeValue_leaf:
  assumes "\<And>ds. d \<noteq> JObj ds"
  shows "mergeValue v d = (if v = JUndefined then d else v)"
  using assms by (cases "(v, d)" rule: mergeValue.cases) auto

lemma get_merged_group:
  assumes D: "distinct (map fst D)" and g: "map_of D g = Some (JObj R)"
    and R: "distinct (map fst R)" and leaf: "\<forall>d \<in> ran (map_of R). \<forall>ds. d \<noteq> JObj ds"
    and v: "get (JObj ps) g = JUndefined \<or> get (JObj ps) g = JObj gs"
  shows "get (get (JObj (mergeProps ps D)) g) f =
           (if get (get (JObj ps) g) f = JUndefined then get (JObj R) f
            else get (get (JObj ps) g) f)"
proof -
  have top: "get (JObj (mergeProps ps D)) g = mergeValue (get (JObj ps) g) (JObj R)"
    by (simp only: get_mergeProps [OF D] g option.case)
  from v show ?thesis
  proof
    assume "get (JObj ps) g = JUndefined"
    then show ?thesis by (simp add: top del: get.simps(1))
  next
    assume o: "get (JObj ps) g = JObj gs"
    have "get (JObj (mergeProps gs R)) f =
            (if get (JObj gs) f = JUndefined then get (JObj R) f else get (JObj gs) f)"
    proof (cases "map_of R f")
      case None
      then have "get (JObj R) f = JUndefined" by simp
      with None show ?thesis by (simp add: get_mergeProps [OF R] del: get.simps(1))
    next
      case (Some d)
      then have "mergeValue (get (JObj gs) f) d =
                   (if get (JObj gs) f = JUndefined then d else get (JObj gs) f)"
        using leaf by (intro mergeValue_leaf) (auto simp add: ran_def)
      moreover from Some have "get (JObj R) f = d" by simp
      ultimately show ?thesis using Some by (simp add: get_mergeProps [OF R] del: get.simps(1))
    qed
    with o show ?thesis by (simp add: top del: get.simps(1))
  qed
qed

text \<open>
  C8, as the code has it. Whatever the options argument, when the constructor returns
  (the libraries accept the merged options): a group, \<^verbatim>\<open>retry\<close> or \<^verbatim>\<open>breaker\<close>, that
  the caller left out or gave as a plain object has in every field the caller's value
  where the caller gave one, and the default's where the caller's is undefined; a group
  that the caller set to a value that is no object (null, a number, a string, a boolean)
  is kept as it is and gets no default. The defaults are \<^verbatim>\<open>max_tries\<close> 2, an interval of 1000 ms, a retry time-out of
  16000 ms and \<^verbatim>\<open>throw_original\<close> set; a per-call time-out of 12000 ms, a threshold of
  80 percent and a circuit duration of three hours (10800000 ms). Under the default
  retry policy, \<^verbatim>\<open>max_tries\<close> 2 means two attempts in all, one retry: an operation that
  fails, and fails again one interval later, is not tried a third time, and its second
  error is the one that surfaces.
\<close>

theorem constructor_merges_defaults:
  assumes "constructor env opts = Inr s"
    and "g = ''retry'' \<or> g = ''breaker''"
  shows "(get opts g = JUndefined \<or> get opts g = JObj gs \<longrightarrow>
            get (get (options s) g) f =
              (if get (get opts g) f = JUndefined then get (get defaultOptions g) f
               else get (get opts g) f)) \<and>
         ((case get opts g of
             JUndefined \<Rightarrow> False | JObj x \<Rightarrow> False | JArr x \<Rightarrow> False
           | JStringObj x \<Rightarrow> False | _ \<Rightarrow> True) \<longrightarrow>
            get (options s) g = get opts g) \<and>
         get defaultOptions ''retry'' =
           JObj [(''max_tries'', JNum 2), (''interval'', JNum 1000),
                 (''timeout'', JNum 16000), (''throw_original'', JBool True)] \<and>
         get defaultOptions ''breaker'' =
           JObj [(''timeout'', JNum 12000), (''threshold'', JNum 80),
                 (''circuitDuration'', JNum 10800000)] \<and>
         (a s0 = (Inl e1, s1) \<and> clock s1 + 1000 < clock s0 + 16000 \<and>
          a (s1\<lparr>clock := max (clock s1) (clock s0 + 1000)\<rparr>) = (Inl e2, s2) \<longrightarrow>
            retry a (get defaultOptions ''retry'') s0 = Some (Inl e2, s2))"
proof -
  let ?R = "[(''max_tries'', JNum 2), (''interval'', JNum 1000),
             (''timeout'', JNum 16000), (''throw_original'', JBool True)]"
  let ?B = "[(''timeout'', JNum 12000), (''threshold'', JNum 80),
             (''circuitDuration'', JNum 10800000)]"
  let ?H = "JObj [(''headers'', JObj [
             (''User-Agent'', JStr ''Tinder Android Version 4.5.5''),
             (''os_version'', JStr ''23''),
             (''platform'', JStr ''android''),
             (''app-version'', JStr ''854''),
             (''Accept-Language'', JStr ''en'')])]"
  let ?D = "[(''request'', ?H), (''retry'', JObj ?R), (''breaker'', JObj ?B)]"
  define qs where "qs = (case opts of JObj ps \<Rightarrow> ps | _ \<Rightarrow> [])"
  have dflt: "defaultOptions = JObj ?D"
    by (simp add: defaultOptions_def)
  have "s = initial (defaultsDeep (if opts = JUndefined then JObj [] else opts) defaultOptions)"
    using assms(1) by (simp add: constructor_def split: if_splits)
  then have opts': "options s = JObj (mergeProps qs ?D)"
    by (cases opts) (simp_all add: initial_def defaultsDeep_def dflt qs_def)
  have same: "get (JObj qs) g = get opts g"
    by (cases opts) (simp_all add: qs_def)
  have D: "distinct (map fst ?D)" by simp
  have R: "distinct (map fst ?R)" by simp
  have B: "distinct (map fst ?B)" by simp
  have leafR: "\<forall>d \<in> ran (map_of ?R). \<forall>ds. d \<noteq> JObj ds"
    by (auto simp add: ran_def split: if_splits)
  have leafB: "\<forall>d \<in> ran (map_of ?B). \<forall>ds. d \<noteq> JObj ds"
    by (auto simp add: ran_def split: if_splits)
  have dR: "get (JObj ?D) ''retry'' = JObj ?R" by simp
  have dB: "get (JObj ?D) ''breaker'' = JObj ?B" by simp
  have fields: "get (get (options s) g) f =
           (if get (get opts g) f = JUndefined then get (get defaultOptions g) f
            else get (get opts g) f)"
    if v0: "get opts g = JUndefined \<or> get opts g = JObj gs"
  proof -
    have v: "get (JObj qs) g = JUndefined \<or> get (JObj qs) g = JObj gs"
      using v0 by (simp only: same)
    from assms(2) show ?thesis
    proof
      assume g: "g = ''retry''"
      then have "map_of ?D g = Some (JObj ?R)" by simp
      from get_merged_group [OF D this R leafR v, where f = f] show ?thesis
        by (simp only: opts' same [unfolded g] dflt g dR)
    next
      assume g: "g = ''breaker''"
      then have "map_of ?D g = Some (JObj ?B)" by simp
      from get_merged_group [OF D this B leafB v, where f = f] show ?thesis
        by (simp only: opts' same [unfolded g] dflt g dB)
    qed
  qed
  have kept: "get (options s) g = get opts g"
    if k: "case get opts g of
             JUndefined \<Rightarrow> False | JObj x \<Rightarrow> False | JArr x \<Rightarrow> False
           | JStringObj x \<Rightarrow> False | _ \<Rightarrow> True"
  proof -
    obtain G where G: "map_of ?D g = Some (JObj G)"
      using assms(2) by auto
    have "get (JObj (mergeProps qs ?D)) g = mergeValue (get (JObj qs) g) (JObj G)"
      by (simp only: get_mergeProps [OF D] G option.case)
    also have "\<dots> = get opts g"
      using k unfolding same by (cases "get opts g") simp_all
    finally show ?thesis
      by (simp only: opts')
  qed
  have twice: "retry a (get defaultOptions ''retry'') s0 = Some (Inl e2, s2)"
    if h: "a s0 = (Inl e1, s1) \<and> clock s1 + 1000 < clock s0 + 16000 \<and>
           a (s1\<lparr>clock := max (clock s1) (clock s0 + 1000)\<rparr>) = (Inl e2, s2)"
  proof -
    let ?r = "JObj ?R"
    let ?w1 = "s1\<lparr>clock := max (clock s1) (clock s0 + 1000)\<rparr>"
    have p: "retry_max_tries ?r = JNum 2" "retry_interval ?r = Some 1000"
      "giveup_time ?r (clock s0) = Some (clock s0 + 16000)"
      "next_interval ?r n (Some 1000) = Some 1000"
      "truthy (get ?r ''throw_original'')" for n
      by (simp_all add: retry_max_tries_def retry_interval_def giveup_time_def
            next_interval_def backoff_def multiplied_def at_most_def)
    have a1: "a s0 = (Inl e1, s1)" and a2: "a ?w1 = (Inl e2, s2)"
      using h by simp_all
    have "try_once a ?r (Some (clock s0 + 16000)) (Some 1000) 0 s0
            = try_once a ?r (Some (clock s0 + 16000)) (Some 1000) (Suc 0) ?w1"
      using h
      by (subst try_once_failure [where f = a and s = s0, OF a1])
         (simp add: p gives_up_def resume_def)
    also have "\<dots> = Some (Inl e2, s2)"
      by (subst try_once_failure [where f = a and s = ?w1, OF a2])
         (simp add: p gives_up_def)
    finally show ?thesis
      by (simp add: retry_def p dflt)
  qed
  from fields kept twice show ?thesis
    by (simp add: dflt)
qed

lemma constructor_examples:
  "constructor down JUndefined = Inr fresh"
  "constructor down (JObj [(''retry'', JObj [(''max_tries'', JNum 3)])]) = Inr three_tries"
  by (simp_all add: constructor_def down_def scripted_def fresh_def three_tries_def)

theorem constructor_merges_defaults_witness:
  "get (get (options three_tries) ''retry'') ''max_tries'' = JNum 3 \<and>
   get (get (options three_tries) ''retry'') ''interval'' = JNum 1000 \<and>
   get (get (options three_tries) ''breaker'') ''circuitDuration'' = JNum 10800000 \<and>
   get (get (options fresh) ''retry'') ''throw_original'' = JBool True \<and>
   get (get (options fresh) ''breaker'') ''threshold'' = JNum 80 \<and>
   map_option fst (getRequest flaky some_request fresh)
     = Some (Inl (Error ''500 Internal Server Error''))"
proof -
  let ?o3 = "JObj [(''retry'', JObj [(''max_tries'', JNum 3)])]"
  let ?f = "attempt flaky GET some_request"
  obtain s1 s2 where
      e1: "exec flaky GET some_request fresh = (Inr server_error, s1)"
    and e2: "exec flaky GET some_request (s1\<lparr>clock := max (clock s1) (clock fresh + 1000)\<rparr>)
               = (Inr server_error, s2)"
    and c: "clock s1 = 0"
    using flaky_run [OF three_tries_start(7-9) options_fresh(2), of GET] by blast
  have a1: "?f fresh = (Inl (Error ''500 Internal Server Error''), s1)"
    using attempt_server_error [OF e1]
    by (simp add: server_error_def show_int_def digits.simps)
  have a2: "?f (s1\<lparr>clock := max (clock s1) (clock fresh + 1000)\<rparr>)
              = (Inl (Error ''500 Internal Server Error''), s2)"
    using attempt_server_error [OF e2]
    by (simp add: server_error_def show_int_def digits.simps)
  note T = constructor_merges_defaults
             [where a = ?f and ?s0.0 = fresh and ?s1.0 = s1 and ?s2.0 = s2
                and ?e1.0 = "Error ''500 Internal Server Error''"
                and ?e2.0 = "Error ''500 Internal Server Error''"]
  have "get (get (options three_tries) ''retry'') ''max_tries'' = JNum 3"
    using T [OF constructor_examples(2), where g = "''retry''"
               and gs = "[(''max_tries'', JNum 3)]" and f = "''max_tries''", THEN conjunct1]
    by simp
  moreover have "get (get (options three_tries) ''retry'') ''interval'' = JNum 1000"
    using T [OF constructor_examples(2), where g = "''retry''"
               and gs = "[(''max_tries'', JNum 3)]" and f = "''interval''", THEN conjunct1]
    by (simp add: defaultOptions_def)
  moreover have "get (get (options three_tries) ''breaker'') ''circuitDuration'' = JNum 10800000"
    using T [OF constructor_examples(2), where g = "''breaker''"
               and f = "''circuitDuration''", THEN conjunct1]
    by (simp add: defaultOptions_def)
  moreover have "get (get (options fresh) ''retry'') ''throw_original'' = JBool True"
    using T [OF constructor_examples(1), where g = "''retry''"
               and f = "''throw_original''", THEN conjunct1]
    by (simp add: defaultOptions_def)
  moreover have "get (get (options fresh) ''breaker'') ''threshold'' = JNum 80"
    using T [OF constructor_examples(1), where g = "''breaker''"
               and f = "''threshold''", THEN conjunct1]
    by (simp add: defaultOptions_def)
  moreover have "retry ?f (get defaultOptions ''retry'') fresh
                   = Some (Inl (Error ''500 Internal Server Error''), s2)"
    using T [OF constructor_examples(1), where g = "''retry''", THEN conjunct2, THEN conjunct2,
             THEN conjunct2, THEN conjunct2] a1 a2 c
    by (simp add: three_tries_start)
  then have "map_option fst (getRequest flaky some_request fresh)
               = Some (Inl (Error ''500 Internal Server Error''))"
    by (simp add: getRequest_def options_fresh defaultOptions_def)
  ultimately show ?thesis
    by simp
qed

text \<open>
  The claim as the spec words it fails. A caller's \<^verbatim>\<open>{retry: null}\<close> is kept by the
  merge, so that no field of the retry group has its default. And the default
  \<^verbatim>\<open>max_tries\<close> of 2 is not two retries: a client with the default options, whose
  transport would answer 500, 500 and then 200, fails after the second answer, with two
  transport invocations made.
\<close>

theorem constructor_defaults_counterexample:
  "map_sum id (\<lambda>s. get (options s) ''retry'') (constructor down (JObj [(''retry'', JNull)]))
     = Inr JNull \<and>
   constructor down JUndefined = Inr fresh \<and>
   map_option fst (getRequest flaky some_request fresh)
     = Some (Inl (Error ''500 Internal Server Error'')) \<and>
   map_option (\<lambda>p. sent (snd p)) (getRequest flaky some_request fresh)
     = Some [(GET, some_request), (GET, some_request)]"
proof -
  let ?f = "attempt flaky GET some_request"
  let ?ropts = "get (options fresh) ''retry''"
  obtain s1 s2 where
      e1: "exec flaky GET some_request fresh = (Inr server_error, s1)"
    and e2: "exec flaky GET some_request (s1\<lparr>clock := max (clock s1) (clock fresh + 1000)\<rparr>)
               = (Inr server_error, s2)"
    and c: "clock s1 = 0" "clock s2 = 1000"
    and sn: "sent s2 = [(GET, some_request), (GET, some_request)]"
    using flaky_run [OF three_tries_start(7-9) options_fresh(2), of GET] by blast
  let ?w1 = "s1\<lparr>clock := max (clock s1) (clock fresh + 1000)\<rparr>"
  have a1: "?f fresh = (Inl (Error ''500 Internal Server Error''), s1)"
    using attempt_server_error [OF e1]
    by (simp add: server_error_def show_int_def digits.simps)
  have a2: "?f ?w1 = (Inl (Error ''500 Internal Server Error''), s2)"
    using attempt_server_error [OF e2]
    by (simp add: server_error_def show_int_def digits.simps)
  have p: "retry_max_tries ?ropts = JNum 2" "retry_interval ?ropts = Some 1000"
    "giveup_time ?ropts 0 = Some 16000" "next_interval ?ropts n (Some 1000) = Some 1000"
    "truthy (get ?ropts ''throw_original'')" for n
    by (simp_all add: options_fresh retry_max_tries_def retry_interval_def
          giveup_time_def next_interval_def backoff_def multiplied_def at_most_def)
  have "try_once ?f ?ropts (Some 16000) (Some 1000) 0 fresh
          = try_once ?f ?ropts (Some 16000) (Some 1000) (Suc 0) ?w1"
    by (subst try_once_failure [where f = ?f and s = fresh, OF a1])
       (simp add: p gives_up_def resume_def three_tries_start c)
  also have "\<dots> = Some (Inl (Error ''500 Internal Server Error''), s2)"
    by (subst try_once_failure [where f = ?f and s = ?w1, OF a2])
       (simp add: p gives_up_def c)
  finally have "getRequest flaky some_request fresh
                  = Some (Inl (Error ''500 Internal Server Error''), s2)"
    by (simp add: getRequest_def retry_def p three_tries_start)
  moreover have "map_sum id (\<lambda>s. get (options s) ''retry'')
                   (constructor down (JObj [(''retry'', JNull)])) = Inr JNull"
    by (simp add: constructor_def down_def scripted_def initial_def defaultsDeep_def
          defaultOptions_def)
  ultimately show ?thesis
    using sn by (simp add: constructor_examples)
qed

section \<open>The circuit breaker\<close>

lemma invoke_result:
  assumes "invoke env v params s = (res, s')"
  shows "sent s' = sent s @ [(v, params)] \<and>
         circuit s' v =
           after_call (get (options s) ''breaker'') (window env) (circuit s v) (clock s')
             (isl res)"
proof -
  obtain r d where b: "bounded (as_number (get (get (options s) ''breaker'') ''timeout''))
                         (transport env (length (sent s)) v params) = (r, d)"
    by (cases "bounded (as_number (get (get (options s) ''breaker'') ''timeout''))
                 (transport env (length (sent s)) v params)")
  from assms b show ?thesis
    by (cases r) (auto simp add: invoke_def failed_def)
qed

text \<open>
  C9, on the model of the breaker. For the circuit of each verb, with a circuit
  duration of \<open>d\<close> milliseconds: a call through the closed circuit after which the
  failure rate over the window has crossed the threshold leaves the circuit open; while
  the circuit is open and \<open>d\<close> milliseconds have not passed since it opened, a call on
  that verb fails at once with the breaker's error, and nothing changes: no transport
  invocation, the circuit as it was; once \<open>d\<close> milliseconds have passed, the next call
  is a probe, handed to the transport, whose success closes the circuit and whose
  failure opens it again.
\<close>

theorem breaker_open_circuit:
  assumes "get (get (options s) ''breaker'') ''circuitDuration'' = JNum d"
  shows "(circuit s v = Closed calls \<and> exec env v params s = (res, s') \<and>
          crossed (get (get (options s) ''breaker'') ''threshold'')
            (recent (window env) (clock s') ((clock s', isl res) # calls)) \<longrightarrow>
            circuit s' v = Open (clock s')) \<and>
         (circuit s v = Open t \<and> clock s < t + d \<longrightarrow>
            exec env v params s = (Inl CircuitBrokenError, s) \<and>
            attempt env v params s = (Inl CircuitBrokenError, s)) \<and>
         (circuit s v = Open t \<and> t + d \<le> clock s \<and> exec env v params s = (res, s') \<longrightarrow>
            sent s' = sent s @ [(v, params)] \<and>
            circuit s' v = (if isl res then Open (clock s') else Closed []))"
proof (intro conjI impI)
  assume h: "circuit s v = Closed calls \<and> exec env v params s = (res, s') \<and>
          crossed (get (get (options s) ''breaker'') ''threshold'')
            (recent (window env) (clock s') ((clock s', isl res) # calls))"
  then have "invoke env v params s = (res, s')"
    by (auto simp add: exec_def)
  from invoke_result [OF this] h show "circuit s' v = Open (clock s')"
    by (simp add: after_call_def)
next
  assume h: "circuit s v = Open t \<and> clock s < t + d"
  with assms show e: "exec env v params s = (Inl CircuitBrokenError, s)"
    by (auto simp add: exec_def on_trial_def as_number_def)
  then show "attempt env v params s = (Inl CircuitBrokenError, s)"
    by (simp add: attempt_def)
next
  assume h: "circuit s v = Open t \<and> t + d \<le> clock s \<and> exec env v params s = (res, s')"
  with assms have i: "invoke env v params s = (res, s')"
    by (auto simp add: exec_def on_trial_def as_number_def)
  from invoke_result [OF i] show "sent s' = sent s @ [(v, params)]"
    by simp
  from invoke_result [OF i] h
  show "circuit s' v = (if isl res then Open (clock s') else Closed [])"
    by (simp add: after_call_def)
qed

lemma tripped_start:
  "circuit tripped GET = Open 0" "circuit tripped POST = Closed []" "clock tripped = 0"
  "sent tripped = []"
  "get (options tripped) ''breaker'' =
     JObj [(''timeout'', JNum 12000), (''threshold'', JNum 80),
           (''circuitDuration'', JNum 10800000)]"
  using options_fresh(2) by (simp_all add: tripped_def three_tries_start)

lemma down_transport:
  "transport down n v p = (Rejects (TransportError ''ECONNREFUSED''), 0)" "window down = 60000"
  "transport (answers b) 0 v p = (Responds (ok_response b), 40)" "window (answers b) = 60000"
  by (simp_all add: down_def answers_def scripted_def)

theorem breaker_open_circuit_witness:
  "circuit (snd (exec down GET some_request fresh)) GET = Open 0 \<and>
   sent (snd (exec down GET some_request fresh)) = [(GET, some_request)] \<and>
   exec down GET some_request tripped = (Inl CircuitBrokenError, tripped) \<and>
   exec (answers JNull) GET some_request (tripped\<lparr>clock := 10799999\<rparr>)
     = (Inl CircuitBrokenError, tripped\<lparr>clock := 10799999\<rparr>) \<and>
   sent (snd (exec down GET some_request (tripped\<lparr>clock := 10800000\<rparr>)))
     = [(GET, some_request)] \<and>
   circuit (snd (exec down GET some_request (tripped\<lparr>clock := 10800000\<rparr>))) GET
     = Open 10800000 \<and>
   circuit (snd (exec (answers JNull) GET some_request (tripped\<lparr>clock := 10800000\<rparr>))) GET
     = Closed []"
proof -
  let ?late = "tripped\<lparr>clock := 10800000\<rparr>"
  have d: "get (get (options fresh) ''breaker'') ''circuitDuration'' = JNum 10800000"
          "get (get (options tripped) ''breaker'') ''circuitDuration'' = JNum 10800000"
          "get (get (options (tripped\<lparr>clock := c\<rparr>)) ''breaker'') ''circuitDuration''
             = JNum 10800000" for c
    by (simp_all add: options_fresh tripped_start)
  have x1: "exec down GET some_request fresh
              = (Inl (TransportError ''ECONNREFUSED''),
                 snd (exec down GET some_request fresh))"
           "clock (snd (exec down GET some_request fresh)) = 0"
    by (simp_all add: exec_def invoke_def down_transport three_tries_start options_fresh
          as_number_def)
  have x2: "exec down GET some_request ?late
              = (Inl (TransportError ''ECONNREFUSED''), snd (exec down GET some_request ?late))"
           "clock (snd (exec down GET some_request ?late)) = 10800000"
    by (simp_all add: exec_def invoke_def down_transport tripped_start on_trial_def
          as_number_def)
  have x3: "exec (answers JNull) GET some_request ?late
              = (Inr (ok_response JNull), snd (exec (answers JNull) GET some_request ?late))"
    by (simp_all add: exec_def invoke_def down_transport tripped_start on_trial_def
          as_number_def)
  from breaker_open_circuit
         [OF d(1), where v = GET and calls = "[]" and env = down and params = some_request
            and res = "Inl (TransportError ''ECONNREFUSED'')"
            and s' = "snd (exec down GET some_request fresh)", THEN conjunct1]
       x1
  have "circuit (snd (exec down GET some_request fresh)) GET = Open 0"
    by (simp add: three_tries_start options_fresh crossed_def recent_def as_number_def
          down_transport)
  moreover have "sent (snd (exec down GET some_request fresh)) = [(GET, some_request)]"
    by (simp add: exec_def invoke_def down_transport three_tries_start options_fresh
          as_number_def)
  moreover from breaker_open_circuit
         [OF d(2), where v = GET and t = 0 and env = down and params = some_request,
          THEN conjunct2, THEN conjunct1]
  have "exec down GET some_request tripped = (Inl CircuitBrokenError, tripped)"
    by (simp add: tripped_start)
  moreover from breaker_open_circuit
         [OF d(3) [of 10799999], where v = GET and t = 0 and env = "answers JNull"
            and params = some_request, THEN conjunct2, THEN conjunct1]
  have "exec (answers JNull) GET some_request (tripped\<lparr>clock := 10799999\<rparr>)
          = (Inl CircuitBrokenError, tripped\<lparr>clock := 10799999\<rparr>)"
    by (simp add: tripped_start)
  moreover from breaker_open_circuit
         [OF d(3) [of 10800000], where v = GET and t = 0 and env = down
            and params = some_request and res = "Inl (TransportError ''ECONNREFUSED'')"
            and s' = "snd (exec down GET some_request ?late)",
          THEN conjunct2, THEN conjunct2]
       x2
  have "sent (snd (exec down GET some_request ?late)) = [(GET, some_request)] \<and>
        circuit (snd (exec down GET some_request ?late)) GET = Open 10800000"
    by (simp add: tripped_start)
  moreover from breaker_open_circuit
         [OF d(3) [of 10800000], where v = GET and t = 0 and env = "answers JNull"
            and params = some_request and res = "Inr (ok_response JNull)"
            and s' = "snd (exec (answers JNull) GET some_request ?late)",
          THEN conjunct2, THEN conjunct2]
       x3
  have "circuit (snd (exec (answers JNull) GET some_request ?late)) GET = Closed []"
    by (simp add: tripped_start)
  ultimately show ?thesis
    by simp
qed

end
